theory Spec2Isabelle
  imports Main "HOL-Library.Word" "HOL-Library.Sublist"
begin

section \<open>JavaScript strings\<close>

text \<open>
  A JavaScript string is a sequence of UTF-16 code units. The request handler compares,
  slices and searches strings by code unit (\<^verbatim>\<open>startsWith\<close>, \<^verbatim>\<open>slice\<close>,
  \<^verbatim>\<open>indexOf\<close>, \<^verbatim>\<open>includes\<close>), and its reserved model prefix is not ASCII, so strings
  are lists of 16-bit words. \<open>js\<close> embeds an ASCII literal.
\<close>

type_synonym jschar = "16 word"
type_synonym jsstring = "jschar list"

definition js :: "string \<Rightarrow> jsstring" where
  "js s = map (\<lambda>c. of_nat (of_char c)) s"

text \<open>\<^verbatim>\<open>hay.includes(needle)\<close>: the needle occurs as a contiguous block.\<close>

fun js_includes :: "jsstring \<Rightarrow> jsstring \<Rightarrow> bool" where
  "js_includes [] needle = (needle = [])"
| "js_includes (c # cs) needle = (prefix needle (c # cs) \<or> js_includes cs needle)"

text \<open>\<^verbatim>\<open>msg && msg.includes(needle)\<close> on a field that may be missing.\<close>

definition opt_includes :: "jsstring option \<Rightarrow> jsstring \<Rightarrow> bool" where
  "opt_includes m needle = (case m of None \<Rightarrow> False | Some s \<Rightarrow> s \<noteq> [] \<and> js_includes s needle)"

text \<open>\<^verbatim>\<open>xs.indexOf(x)\<close>: the first position of \<open>x\<close>; JavaScript's \<open>-1\<close> is \<open>None\<close>.\<close>

fun indexOf :: "'a list \<Rightarrow> 'a \<Rightarrow> nat option" where
  "indexOf [] x = None"
| "indexOf (y # ys) x = (if y = x then Some 0 else map_option Suc (indexOf ys x))"

section \<open>Configuration and handler state\<close>

text \<open>
  The fields of \<^verbatim>\<open>config\<close> that the request handler reads (ConfigLoader, part_000).
  The loader normalises \<^verbatim>\<open>streamingMode\<close> to one of three strings.
\<close>

datatype streaming_mode = Real | Fake | Mix

record config =
  maxRetries :: int
  retryDelay :: int
  failureThreshold :: int
  switchOnUses :: int
  immediateSwitchStatusCodes :: "int list"

text \<open>
  The mutable fields of \<^verbatim>\<open>RequestHandler\<close>, together with the two fields of its
  collaborators that it reads: \<^verbatim>\<open>browserManager.currentAuthIndex\<close> and
  \<^verbatim>\<open>authSource.availableIndices\<close>. \<open>launches\<close> counts the calls of
  \<^verbatim>\<open>launchOrSwitchContext\<close> made so far; the outcome of each call is decided by the
  automation layer, which is outside the handler.
\<close>

record handler =
  failureCount :: int
  usageCount :: int
  isAuthSwitching :: bool
  needsSwitchingAfterRequest :: bool
  isSystemBusy :: bool
  currentAuthIndex :: int
  availableIndices :: "int list"
  launches :: nat

datatype js_error = Error jsstring

fun error_message :: "js_error \<Rightarrow> jsstring" where
  "error_message (Error m) = m"

text \<open>
  The automation layer: whether the \<open>n\<close>-th call of \<^verbatim>\<open>launchOrSwitchContext\<close>, for
  account \<open>i\<close>, succeeds (\<open>None\<close>) or throws.
\<close>

type_synonym browser_env = "nat \<Rightarrow> int \<Rightarrow> js_error option"

text \<open>
  \<^verbatim>\<open>BrowserManager.launchOrSwitchContext\<close>: \<^verbatim>\<open>currentAuthIndex\<close> is assigned as the
  last step of a successful initialisation and is left alone when the call throws.
  \<^verbatim>\<open>switchAccount\<close> only logs around it.
\<close>

definition launchOrSwitchContext :: "browser_env \<Rightarrow> int \<Rightarrow> handler \<Rightarrow> js_error option \<times> handler" where
  "launchOrSwitchContext env authIndex h =
     (let h' = h\<lparr>launches := launches h + 1\<rparr> in
      case env (launches h) authIndex of
        None \<Rightarrow> (None, h'\<lparr>currentAuthIndex := authIndex\<rparr>)
      | Some e \<Rightarrow> (Some e, h'))"

definition switchAccount :: "browser_env \<Rightarrow> int \<Rightarrow> handler \<Rightarrow> js_error option \<times> handler" where
  "switchAccount env newAuthIndex h = launchOrSwitchContext env newAuthIndex h"

section \<open>Account rotation\<close>

definition getNextAuthIndex :: "handler \<Rightarrow> int option" where
  "getNextAuthIndex h =
     (let available = availableIndices h in
      if length available = 0 then None
      else case indexOf available (currentAuthIndex h) of
             None \<Rightarrow> Some (available ! 0)
           | Some currentIndexInArray \<Rightarrow>
               Some (available ! ((currentIndexInArray + 1) mod length available)))"

text \<open>
  What \<^verbatim>\<open>_switchToNextAuth\<close> returns: \<^verbatim>\<open>{success: true, newIndex}\<close>,
  \<^verbatim>\<open>{success: false, fallback: true, newIndex}\<close> or
  \<^verbatim>\<open>{success: false, reason: "Switch already in progress."}\<close>.
\<close>

datatype switch_result = Switched int | FallbackOk int | InProgress

fun success :: "switch_result \<Rightarrow> bool" where
  "success (Switched _) = True"
| "success _ = False"

fun fallback :: "switch_result \<Rightarrow> bool" where
  "fallback (FallbackOk _) = True"
| "fallback _ = False"

definition only_one_message :: jsstring where
  "only_one_message = js ''Only one account is available, cannot switch.''"

text \<open>
  \<^verbatim>\<open>_switchToNextAuth\<close>. A thrown error is \<open>Inl\<close>. The \<^verbatim>\<open>finally\<close> block releases
  both locks on every path that took them. The target is \<^verbatim>\<open>null\<close> only for an empty
  account list, which the first check has excluded; the model then hands the automation
  layer the current index.
\<close>

definition switchToNextAuth :: "browser_env \<Rightarrow> handler \<Rightarrow> (js_error + switch_result) \<times> handler" where
  "switchToNextAuth env h =
     (if length (availableIndices h) \<le> 1 then (Inl (Error only_one_message), h)
      else if isAuthSwitching h then (Inr InProgress, h)
      else
        let h1 = h\<lparr>isAuthSwitching := True, isSystemBusy := True\<rparr>;
            previousAuthIndex = currentAuthIndex h1;
            nextAuthIndex = (case getNextAuthIndex h1 of Some n \<Rightarrow> n | None \<Rightarrow> previousAuthIndex);
            (r, h5) =
              (case switchAccount env nextAuthIndex h1 of
                 (None, h2) \<Rightarrow>
                   (let h3 = h2\<lparr>failureCount := 0, usageCount := 0\<rparr>
                    in (Inr (Switched (currentAuthIndex h3)), h3))
               | (Some err, h2) \<Rightarrow>
                   (case launchOrSwitchContext env previousAuthIndex h2 of
                      (None, h3) \<Rightarrow>
                        (let h4 = h3\<lparr>failureCount := 0, usageCount := 0\<rparr>
                         in (Inr (FallbackOk (currentAuthIndex h4)), h4))
                    | (Some fallbackError, h3) \<Rightarrow> (Inl fallbackError, h3)))
        in (r, h5\<lparr>isAuthSwitching := False, isSystemBusy := False\<rparr>))"

section \<open>The client-facing response\<close>

text \<open>
  The handler's user-facing messages are template strings with fixed Chinese text around
  the interpolated values. Each template is one constructor, carrying the values
  interpolated into it:
  \<^item> \<open>SwitchedNotice i\<close>: the notice sent when \<^verbatim>\<open>_switchToNextAuth\<close> returned without
    throwing (it names account \<open>i\<close>);
  \<^item> \<open>OnlyOneNotice\<close>, \<open>BothFailedNotice\<close>, \<open>AutoSwitchFailedNotice i\<close>,
    \<open>UnknownSwitchError m\<close>: the four messages of its \<^verbatim>\<open>catch\<close> block;
  \<^item> \<open>FinalFailure m\<close>: "request finally failed: m", after the retries;
  \<^item> \<open>UpstreamStreamFailed m\<close>: "upstream streaming failed: m";
  \<^item> \<open>ProcessingFailed m\<close>: "processing failed: m", and \<open>ProxyFailure m\<close>: "proxy error: m",
    both of \<^verbatim>\<open>_handleRequestError\<close>;
  \<^item> \<open>SafetyBlocked r\<close>: "request blocked due to safety settings", with the block reason;
  \<^item> \<open>BusyNotice\<close>: "changing accounts, try again later", and \<open>StartingNotice\<close>: "the system
    is starting, try again later", the two refusals at admission;
  \<^item> \<open>MaintenanceNotice\<close>: "the server is under internal maintenance, retry later", and
    \<open>RecoveryFailedNotice\<close>: "service unavailable: the browser crashed and could not be
    recovered", the two refusals of \<^verbatim>\<open>processRequest\<close> around its recovery of the browser;
  \<^item> \<open>Plain s\<close>: text that is no template, such as a message of the upstream reply.
\<close>

datatype ctext =
    Plain jsstring
  | SwitchedNotice int
  | OnlyOneNotice
  | BothFailedNotice
  | AutoSwitchFailedNotice int
  | UnknownSwitchError jsstring
  | FinalFailure "jsstring option"
  | UpstreamStreamFailed "jsstring option"
  | ProcessingFailed jsstring
  | ProxyFailure jsstring
  | SafetyBlocked "jsstring option"
  | BusyNotice
  | StartingNotice
  | MaintenanceNotice
  | RecoveryFailedNotice

text \<open>
  The identifier of an OpenAI chunk: \<^verbatim>\<open>chatcmpl-\<close> followed by the request id, or by an
  identifier generated for this chunk alone.
\<close>

datatype chunk_id = ForRequest jsstring | FreshId

text \<open>
  What is written to the client:
  \<^item> \<open>ProxyErrorEvent t\<close>: the event of \<^verbatim>\<open>_sendErrorChunkToClient\<close>, an \<^verbatim>\<open>error\<close> object
    of type \<^verbatim>\<open>proxy_error\<close>;
  \<^item> \<open>OpenAIChunk id model content finish\<close>: a \<^verbatim>\<open>chat.completion.chunk\<close> event with
    \<^verbatim>\<open>delta.content\<close> (absent for the empty delta) and \<^verbatim>\<open>finish_reason\<close> (\<open>None\<close> is
    \<^verbatim>\<open>null\<close>); its \<^verbatim>\<open>created\<close> time stamp is left out;
  \<^item> \<open>RawEvent s\<close>: text passed through as it came;
  \<^item> \<open>DoneSentinel\<close>: the line \<^verbatim>\<open>data: [DONE]\<close> and its blank line;
  \<^item> \<open>ErrorBody status t\<close>: the JSON body of \<^verbatim>\<open>_sendErrorResponse\<close>;
  \<^item> \<open>Completion id model content finish\<close>: the \<^verbatim>\<open>chat.completion\<close> body of a
    non-streaming reply.
\<close>

datatype client_event =
    ProxyErrorEvent ctext
  | OpenAIChunk chunk_id jsstring "ctext option" "jsstring option"
  | RawEvent jsstring
  | DoneSentinel
  | ErrorBody int "ctext option"
  | Completion chunk_id jsstring jsstring jsstring

record response =
  headersSent :: bool
  writableEnded :: bool
  statusCode :: int
  proxyPseudoStream :: bool
  written :: "client_event list"

text \<open>
  \<^verbatim>\<open>_writeSseChunk\<close>: nothing on an ended response; otherwise \<^verbatim>\<open>res.write\<close>, which
  sends the headers if they have not gone out yet.
\<close>

definition writeSseChunk :: "response \<Rightarrow> client_event \<Rightarrow> response" where
  "writeSseChunk res chunk =
     (if writableEnded res then res
      else res\<lparr>written := written res @ [chunk], headersSent := True\<rparr>)"

definition sendErrorChunkToClient :: "response \<Rightarrow> ctext \<Rightarrow> response" where
  "sendErrorChunkToClient res errorMessage =
     (if \<not> writableEnded res then writeSseChunk res (ProxyErrorEvent errorMessage) else res)"

definition res_end :: "response \<Rightarrow> response" where
  "res_end res = res\<lparr>writableEnded := True, headersSent := True\<rparr>"

text \<open>\<^verbatim>\<open>_sendErrorResponse\<close>: a complete JSON response, only while no header has been sent.\<close>

definition sendErrorResponse :: "response \<Rightarrow> int option \<Rightarrow> ctext option \<Rightarrow> response" where
  "sendErrorResponse res status message =
     (if \<not> headersSent res then
        (let code = (case status of None \<Rightarrow> 500 | Some s \<Rightarrow> if s = 0 then 500 else s)
         in res\<lparr>statusCode := code, written := written res @ [ErrorBody code message],
                headersSent := True, writableEnded := True\<rparr>)
      else res)"

definition timeout_marker :: jsstring where
  "timeout_marker = [0x8D85, 0x65F6]"

text \<open>
  \<^verbatim>\<open>_handleRequestError\<close>. \<open>mode\<close> is \<^verbatim>\<open>serverSystem.streamingMode\<close>. With the headers
  already out, an error event is written only to a response marked as a pseudo stream (or
  under the global mode \<^verbatim>\<open>fake\<close>), and the response is ended; no completion line is
  written.
\<close>

definition handleRequestError :: "streaming_mode \<Rightarrow> js_error \<Rightarrow> response \<Rightarrow> response" where
  "handleRequestError mode error res =
     (if headersSent res then
        (let expectsPseudoChunks = (proxyPseudoStream res \<or> mode = Fake);
             res1 = (if expectsPseudoChunks
                     then sendErrorChunkToClient res (ProcessingFailed (error_message error))
                     else res)
         in if \<not> writableEnded res1 then res_end res1 else res1)
      else
        (let status = (if js_includes (error_message error) timeout_marker then 504 else 500)
         in sendErrorResponse res (Some status) (Some (ProxyFailure (error_message error)))))"

section \<open>Failure accounting and the rotation trigger\<close>

definition fallback_failed_marker :: jsstring where
  "fallback_failed_marker = [0x56DE, 0x9000, 0x5931, 0x8D25, 0x539F, 0x56E0]"

definition switch_to_account_marker :: jsstring where
  "switch_to_account_marker = [0x5207, 0x6362, 0x5230, 0x8D26, 0x53F7]"

text \<open>\<^verbatim>\<open>if (res) this._sendErrorChunkToClient(res, message)\<close>, for a response that may be null.\<close>

definition notifyClient :: "response option \<Rightarrow> ctext \<Rightarrow> response option" where
  "notifyClient res message = map_option (\<lambda>r. sendErrorChunkToClient r message) res"

text \<open>
  \<^verbatim>\<open>_handleRequestFailureAndSwitch(errorDetails, res)\<close>. Of \<^verbatim>\<open>errorDetails\<close> only the
  status is read. The first component of the result records the rotation: \<open>None\<close> when
  \<^verbatim>\<open>_switchToNextAuth\<close> was not called, otherwise what the call returned or threw.
\<close>

definition handleRequestFailureAndSwitch ::
  "config \<Rightarrow> browser_env \<Rightarrow> int option \<Rightarrow> response option \<Rightarrow> handler \<Rightarrow>
     (js_error + switch_result) option \<times> handler \<times> response option" where
  "handleRequestFailureAndSwitch cfg env status res h =
     (let h1 = (if failureThreshold cfg > 0 then h\<lparr>failureCount := failureCount h + 1\<rparr> else h);
          isImmediateSwitch =
            (case status of None \<Rightarrow> False | Some s \<Rightarrow> s \<in> set (immediateSwitchStatusCodes cfg));
          isThresholdReached =
            (failureThreshold cfg > 0 \<and> failureCount h1 \<ge> failureThreshold cfg)
      in if isImmediateSwitch \<or> isThresholdReached then
           (case switchToNextAuth env h1 of
              (Inr r, h2) \<Rightarrow>
                (Some (Inr r), h2, notifyClient res (SwitchedNotice (currentAuthIndex h2)))
            | (Inl error, h2) \<Rightarrow>
                (if js_includes (error_message error) (js ''Only one account is available'') then
                   (Some (Inl error), h2\<lparr>failureCount := 0\<rparr>, notifyClient res OnlyOneNotice)
                 else if js_includes (error_message error) fallback_failed_marker then
                   (Some (Inl error), h2, notifyClient res BothFailedNotice)
                 else if js_includes (error_message error) switch_to_account_marker then
                   (Some (Inl error), h2,
                    notifyClient res (AutoSwitchFailedNotice (currentAuthIndex h2)))
                 else
                   (Some (Inl error), h2,
                    notifyClient res (UnknownSwitchError (error_message error)))))
         else (None, h1, res))"

section \<open>Re-framing of the upstream event stream\<close>

definition LF :: jschar where
  "LF = 0x0A"

definition CR :: jschar where
  "CR = 0x0D"

text \<open>
  The characters \<^verbatim>\<open>trim\<close> and \<^verbatim>\<open>trimStart\<close> remove: ECMAScript's white space and line
  terminators.
\<close>

definition is_space :: "jschar \<Rightarrow> bool" where
  "is_space c =
     (c \<in> set [0x09, 0x0A, 0x0B, 0x0C, 0x0D, 0x20, 0xA0, 0x1680, 0x2028, 0x2029, 0x202F,
               0x205F, 0x3000, 0xFEFF]
      \<or> (0x2000 \<le> c \<and> c \<le> 0x200A))"

definition trimStart :: "jsstring \<Rightarrow> jsstring" where
  "trimStart s = dropWhile is_space s"

definition trim :: "jsstring \<Rightarrow> jsstring" where
  "trim s = rev (dropWhile is_space (rev (dropWhile is_space s)))"

text \<open>\<^verbatim>\<open>s.split(d)\<close> for a one-character separator: never an empty array.\<close>

fun split_on :: "jschar \<Rightarrow> jsstring \<Rightarrow> jsstring list" where
  "split_on d [] = [[]]"
| "split_on d (c # cs) =
     (if c = d then [] # split_on d cs
      else (case split_on d cs of [] \<Rightarrow> [[c]] | l # ls \<Rightarrow> (c # l) # ls))"

text \<open>\<^verbatim>\<open>xs.join(sep)\<close> on strings.\<close>

fun join :: "jsstring \<Rightarrow> jsstring list \<Rightarrow> jsstring" where
  "join sep [] = []"
| "join sep [x] = x"
| "join sep (x # y # ys) = x @ sep @ join sep (y # ys)"

text \<open>
  The loop over the lines of one raw event in \<^verbatim>\<open>processSseEvent\<close>: empty lines and
  comment lines are skipped, a \<^verbatim>\<open>data:\<close> line contributes its value, any other line is
  ignored.
\<close>

fun dataLines :: "jsstring list \<Rightarrow> jsstring list" where
  "dataLines [] = []"
| "dataLines (line # lines) =
     (if line = [] then dataLines lines
      else if prefix [0x3A] line then dataLines lines
      else if prefix (js ''data:'') line then trimStart (drop 5 line) # dataLines lines
      else dataLines lines)"

text \<open>
  \<^verbatim>\<open>processSseEvent\<close> up to the point where it hands the payload to the translator:
  \<open>None\<close> when it returns early.
\<close>

definition processSseEvent :: "jsstring \<Rightarrow> jsstring option" where
  "processSseEvent rawEvent =
     (let dl = dataLines (split_on LF rawEvent) in
      if length dl = 0 then None
      else (let payload = trim (join [LF] dl) in
            if payload = [] \<or> payload = js ''[DONE]'' then None else Some payload))"

text \<open>\<^verbatim>\<open>sseBuffer.indexOf("\n\n")\<close>.\<close>

fun delimiterIndex :: "jsstring \<Rightarrow> nat option" where
  "delimiterIndex [] = None"
| "delimiterIndex (c # cs) =
     (if prefix [LF, LF] (c # cs) then Some 0 else map_option Suc (delimiterIndex cs))"

lemma delimiterIndex_bound: "delimiterIndex buf = Some i \<Longrightarrow> i + 2 \<le> length buf"
proof (induction buf arbitrary: i)
  case Nil
  then show ?case by simp
next
  case (Cons c cs)
  show ?case
  proof (cases "prefix [LF, LF] (c # cs)")
    case True
    then obtain zs where "c # cs = [LF, LF] @ zs" by (auto simp: prefix_def)
    then have "2 \<le> length (c # cs)" by simp
    moreover from True Cons.prems have "i = 0" by simp
    ultimately show ?thesis by simp
  next
    case False
    with Cons.prems obtain j where j: "delimiterIndex cs = Some j" and i: "i = Suc j"
      by auto
    from Cons.IH [OF j] i show ?thesis by simp
  qed
qed

text \<open>
  \<^verbatim>\<open>processSseBuffer\<close>: cut at the first blank line while there is one. The result is the
  list of payloads handed to the translator, in order, and the buffer that remains.
\<close>

function processSseBuffer :: "jsstring \<Rightarrow> jsstring list \<times> jsstring" where
  "processSseBuffer sseBuffer =
     (case delimiterIndex sseBuffer of
        None \<Rightarrow> ([], sseBuffer)
      | Some i \<Rightarrow>
          (let rawEvent = take i sseBuffer;
               emitted = (if trim rawEvent \<noteq> []
                          then (case processSseEvent rawEvent of None \<Rightarrow> [] | Some p \<Rightarrow> [p])
                          else [])
           in case processSseBuffer (drop (i + 2) sseBuffer) of
                (later, rest) \<Rightarrow> (emitted @ later, rest)))"
  by pat_completeness auto
termination
proof (relation "measure length")
  show "wf (measure length)" by simp
next
  fix sseBuffer :: jsstring and i
  assume "delimiterIndex sseBuffer = Some i"
  then have "i + 2 \<le> length sseBuffer" by (rule delimiterIndex_bound)
  then show "(drop (i + 2) sseBuffer, sseBuffer) \<in> measure length" by simp
qed

text \<open>\<^verbatim>\<open>data.replace(/\r\n/g, "\n").replace(/\r/g, "\n")\<close>, applied to each chunk on its own.\<close>

fun replace_crlf :: "jsstring \<Rightarrow> jsstring" where
  "replace_crlf [] = []"
| "replace_crlf [c] = [c]"
| "replace_crlf (c # d # cs) =
     (if c = CR \<and> d = LF then LF # replace_crlf cs else c # replace_crlf (d # cs))"

definition normalizeChunk :: "jsstring \<Rightarrow> jsstring" where
  "normalizeChunk d = map (\<lambda>c. if c = CR then LF else c) (replace_crlf d)"

text \<open>
  One chunk message in the streaming loop: a non-empty \<^verbatim>\<open>data\<close> is normalised, appended
  to the buffer and the buffer is processed; an empty one changes nothing.
\<close>

definition feedChunk :: "jsstring \<Rightarrow> jsstring \<Rightarrow> jsstring list \<times> jsstring" where
  "feedChunk sseBuffer d =
     (if length d > 0 then processSseBuffer (sseBuffer @ normalizeChunk d) else ([], sseBuffer))"

text \<open>The end of the stream: a buffer that is not blank is closed with a blank line and processed.\<close>

definition flushBuffer :: "jsstring \<Rightarrow> jsstring list" where
  "flushBuffer sseBuffer =
     (if trim sseBuffer \<noteq> [] then fst (processSseBuffer (sseBuffer @ [LF, LF])) else [])"

text \<open>
  The payloads handed to the translator when the chunk messages carry the given data, in
  this order, and the end of the stream follows.
\<close>

fun reframeFrom :: "jsstring \<Rightarrow> jsstring list \<Rightarrow> jsstring list" where
  "reframeFrom sseBuffer [] = flushBuffer sseBuffer"
| "reframeFrom sseBuffer (d # ds) =
     (case feedChunk sseBuffer d of (emitted, rest) \<Rightarrow> emitted @ reframeFrom rest ds)"

definition reframe :: "jsstring list \<Rightarrow> jsstring list" where
  "reframe chunks = reframeFrom [] chunks"

section \<open>Upstream messages, the request queue and the channel\<close>

text \<open>
  A message from the upstream channel: \<^verbatim>\<open>{event_type: "error", status, message}\<close>,
  \<^verbatim>\<open>{event_type: "chunk", data}\<close>, \<^verbatim>\<open>{type: "STREAM_END"}\<close>, or the first message of a
  successful reply, which carries the status and the headers.
\<close>

datatype inbound =
    ErrorMsg "int option" "jsstring option"
  | ChunkMsg jsstring
  | StreamEnd
  | HeadersMsg "int option" "(jsstring \<times> jsstring) list"

fun is_error :: "inbound \<Rightarrow> bool" where
  "is_error (ErrorMsg _ _) = True"
| "is_error _ = False"

fun is_stream_end :: "inbound \<Rightarrow> bool" where
  "is_stream_end StreamEnd = True"
| "is_stream_end _ = False"

fun msg_status :: "inbound \<Rightarrow> int option" where
  "msg_status (ErrorMsg s _) = s"
| "msg_status (HeadersMsg s _) = s"
| "msg_status _ = None"

fun msg_message :: "inbound \<Rightarrow> jsstring option" where
  "msg_message (ErrorMsg _ m) = m"
| "msg_message _ = None"

fun msg_data :: "inbound \<Rightarrow> jsstring option" where
  "msg_data (ChunkMsg d) = Some d"
| "msg_data _ = None"

text \<open>
  The model of a request under mix mode: the identifier as requested, the identifier sent
  upstream, and whether the request is a fake-stream one.
\<close>

record model_context =
  requestedModel :: jsstring
  normalizedModel :: jsstring
  isFake :: bool

text \<open>
  The request sent to the channel. \<^verbatim>\<open>client_wants_stream\<close> is set by the OpenAI entry
  point only. \<open>mix_context\<close> stands for the three fields \<^verbatim>\<open>requestedModel\<close>,
  \<^verbatim>\<open>normalizedModel\<close> and \<^verbatim>\<open>isFakeStreamModel\<close> that the native entry point copies
  from the model context onto the request under mix mode.
\<close>

record proxy_request =
  path :: jsstring
  http_method :: jsstring
  headers :: "(jsstring \<times> jsstring) list"
  query_params :: "(jsstring \<times> jsstring) list"
  body :: jsstring
  request_id :: jsstring
  is_generative :: bool
  streaming_mode :: streaming_mode
  client_wants_stream :: "bool option"
  mix_context :: "model_context option"

text \<open>
  The automation layer behind the channel: the messages it sends back for the \<open>n\<close>-th
  request forwarded to it.
\<close>

type_synonym upstream = "nat \<Rightarrow> proxy_request \<Rightarrow> inbound list"

text \<open>
  Modelled from the spec: the Message Queue and the Connection Registry
  (\<^verbatim>\<open>MessageQueue.js\<close> and \<^verbatim>\<open>ConnectionRegistry.js\<close> are named by the README but are
  not among the sources). The queue of one request is a FIFO of the messages received and
  not yet consumed; \<open>dequeue\<close> takes the oldest one and fails with the queue's timeout when
  none is there. \<open>connected\<close> says whether the registry has a live channel. \<open>forwarded\<close>,
  \<open>slept\<close> and \<open>awaited\<close> record what the handler sent to the channel, the delays it
  waited between attempts, and the time limit, in milliseconds, of each wait for the first
  message of an attempt.
\<close>

record world =
  hs :: handler
  queue :: "inbound list"
  forwarded :: "proxy_request list"
  slept :: "int list"
  awaited :: "int list"
  connected :: bool

definition queue_timeout_message :: jsstring where
  "queue_timeout_message = js ''Queue timeout''"

definition browser_timeout_message :: jsstring where
  "browser_timeout_message = js ''Response from browser timed out after 300 seconds''"

definition no_connection_message :: jsstring where
  "no_connection_message =
     [0x65E0, 0x6CD5, 0x8F6C, 0x53D1, 0x8BF7, 0x6C42, 0xFF1A, 0x6CA1, 0x6709, 0x53EF, 0x7528,
      0x7684, 0x57, 0x65, 0x62, 0x53, 0x6F, 0x63, 0x6B, 0x65, 0x74, 0x8FDE, 0x63A5, 0x3002]"

definition abort_marker :: jsstring where
  "abort_marker = js ''The user aborted a request''"

definition dequeue :: "world \<Rightarrow> js_error + inbound \<times> world" where
  "dequeue w =
     (case queue w of
        [] \<Rightarrow> Inl (Error queue_timeout_message)
      | m # ms \<Rightarrow> Inr (m, w\<lparr>queue := ms\<rparr>))"

text \<open>\<^verbatim>\<open>_forwardRequest\<close>: throws without a live channel, otherwise sends the request.\<close>

definition forwardRequest :: "upstream \<Rightarrow> proxy_request \<Rightarrow> world \<Rightarrow> js_error + world" where
  "forwardRequest up proxyRequest w =
     (if connected w
      then Inr (w\<lparr>forwarded := forwarded w @ [proxyRequest],
                  queue := queue w @ up (length (forwarded w)) proxyRequest\<rparr>)
      else Inl (Error no_connection_message))"

text \<open>
  The first message of an attempt in the pseudo-stream handlers: \<^verbatim>\<open>dequeue()\<close> raced
  against a timer of 300000 milliseconds, which \<open>awaited\<close> records. When nothing arrives
  the error is caught and replaced by an error message of status 504.
\<close>

definition awaitFirstMessage :: "world \<Rightarrow> inbound \<times> world" where
  "awaitFirstMessage w =
     (let w1 = w\<lparr>awaited := awaited w @ [300000]\<rparr> in
      case queue w1 of
        [] \<Rightarrow> (ErrorMsg (Some 504) (Some browser_timeout_message), w1)
      | m # ms \<Rightarrow> (m, w1\<lparr>queue := ms\<rparr>))"

definition sleep :: "int \<Rightarrow> world \<Rightarrow> world" where
  "sleep delay w = w\<lparr>slept := slept w @ [delay]\<rparr>"

section \<open>The retry loop\<close>

text \<open>
  The \<^verbatim>\<open>for (let attempt = 1; attempt <= this.maxRetries; attempt++)\<close> loop, which
  \<^verbatim>\<open>_handlePseudoStreamResponse\<close> and \<^verbatim>\<open>_handleOpenAIPseudoStreamResponse\<close> contain in
  the same words. The result is \<^verbatim>\<open>lastMessage\<close> (undefined when the body never ran) and
  \<^verbatim>\<open>requestFailed\<close>, or the error \<^verbatim>\<open>_forwardRequest\<close> threw.
\<close>

function retryLoop ::
  "config \<Rightarrow> upstream \<Rightarrow> proxy_request \<Rightarrow> int \<Rightarrow> inbound option \<Rightarrow> world \<Rightarrow>
     (js_error + inbound option \<times> bool) \<times> world" where
  "retryLoop cfg up proxyRequest attempt lastMessage w =
     (if attempt \<le> maxRetries cfg then
        (case forwardRequest up proxyRequest w of
           Inl error \<Rightarrow> (Inl error, w)
         | Inr w1 \<Rightarrow>
             (case awaitFirstMessage w1 of
                (m, w2) \<Rightarrow>
                  (if is_error m then
                     (if attempt < maxRetries cfg
                      then retryLoop cfg up proxyRequest (attempt + 1) (Some m)
                             (sleep (retryDelay cfg) w2)
                      else (Inr (Some m, True), w2))
                   else (Inr (Some m, False), w2))))
      else (Inr (lastMessage, False), w))"
  by pat_completeness auto
termination
  by (relation "measure (\<lambda>(cfg, up, proxyRequest, attempt, lastMessage, w).
                  nat (maxRetries cfg + 1 - attempt))") auto

text \<open>
  The accounting after a successful first message, written out in every handler: the
  failure counter is cleared, and with usage rotation enabled the usage counter is
  incremented and, at the threshold, the deferred rotation is flagged.
\<close>

definition resetFailureCount :: "handler \<Rightarrow> handler" where
  "resetFailureCount h = (if failureCount h > 0 then h\<lparr>failureCount := 0\<rparr> else h)"

definition countUsage :: "config \<Rightarrow> handler \<Rightarrow> handler" where
  "countUsage cfg h =
     (if switchOnUses cfg > 0 then
        (let h1 = h\<lparr>usageCount := usageCount h + 1\<rparr>
         in if usageCount h1 \<ge> switchOnUses cfg
            then h1\<lparr>needsSwitchingAfterRequest := True\<rparr> else h1)
      else h)"

fun lm_message :: "inbound option \<Rightarrow> jsstring option" where
  "lm_message None = None"
| "lm_message (Some m) = msg_message m"

fun lm_status :: "inbound option \<Rightarrow> int option" where
  "lm_status None = None"
| "lm_status (Some m) = msg_status m"

text \<open>The response handed to \<^verbatim>\<open>_handleRequestFailureAndSwitch\<close> comes back, written to or not.\<close>

definition res_after :: "response \<Rightarrow> response option \<Rightarrow> response" where
  "res_after res r = (case r of None \<Rightarrow> res | Some res' \<Rightarrow> res')"

section \<open>The native reply and its OpenAI rendering\<close>

text \<open>
  A part of native content: \<^verbatim>\<open>{text}\<close>, \<^verbatim>\<open>{inlineData: {mimeType, data}}\<close>, or a part
  with neither field.
\<close>

datatype native_part = NText jsstring | NInline jsstring jsstring | NOther

text \<open>
  What the handler reads of a parsed native reply: the candidates, each with its parts
  (\<open>None\<close> unless \<^verbatim>\<open>content.parts\<close> is an array) and its finish reason, and the prompt
  feedback with its block reason. \<^verbatim>\<open>JSON.parse\<close> is a parameter of the handlers: \<open>None\<close>
  is a syntax error.
\<close>

record candidate =
  content_parts :: "native_part list option"
  finishReason :: "jsstring option"

datatype prompt_feedback = PromptFeedback "jsstring option"

record google_response =
  candidates :: "candidate list"
  promptFeedback :: "prompt_feedback option"

type_synonym json_parser = "jsstring \<Rightarrow> google_response option"

fun part_text :: "native_part \<Rightarrow> jsstring" where
  "part_text (NText t) = t"
| "part_text _ = []"

fun find_inline :: "native_part list \<Rightarrow> (jsstring \<times> jsstring) option" where
  "find_inline [] = None"
| "find_inline (NInline mimeType d # ps) = Some (mimeType, d)"
| "find_inline (_ # ps) = find_inline ps"

definition image_markdown :: "jsstring \<Rightarrow> jsstring \<Rightarrow> jsstring" where
  "image_markdown mimeType d =
     js ''![Generated Image](data:'' @ mimeType @ js '';base64,'' @ d @ js '')''"

definition first_candidate :: "google_response \<Rightarrow> candidate option" where
  "first_candidate g = (case candidates g of [] \<Rightarrow> None | c # _ \<Rightarrow> Some c)"

text \<open>
  The content of a candidate: the first inline image as a markdown image, else the texts
  of all parts joined with the separator.
\<close>

definition candidateContent :: "jsstring \<Rightarrow> candidate option \<Rightarrow> jsstring" where
  "candidateContent sep candidate =
     (case candidate of
        None \<Rightarrow> []
      | Some c \<Rightarrow>
          (case content_parts c of
             None \<Rightarrow> []
           | Some ps \<Rightarrow>
               (case find_inline ps of
                  Some (mimeType, d) \<Rightarrow> image_markdown mimeType d
                | None \<Rightarrow> join sep (map part_text ps))))"

text \<open>\<^verbatim>\<open>candidate?.finishReason\<close>, and \<^verbatim>\<open>x || fallback\<close> on an optional string.\<close>

definition candidateFinish :: "candidate option \<Rightarrow> jsstring option" where
  "candidateFinish candidate = (case candidate of None \<Rightarrow> None | Some c \<Rightarrow> finishReason c)"

definition or_else :: "jsstring option \<Rightarrow> jsstring \<Rightarrow> jsstring" where
  "or_else x d = (case x of None \<Rightarrow> d | Some s \<Rightarrow> if s = [] then d else s)"

text \<open>
  \<^verbatim>\<open>_translateGoogleToOpenAIStream\<close>: \<open>None\<close> is \<^verbatim>\<open>null\<close>. Without a candidate, a
  reply with prompt feedback becomes the chunk that reports the safety block, with finish
  reason \<^verbatim>\<open>stop\<close>.
\<close>

definition translateGoogleToOpenAIStream ::
  "json_parser \<Rightarrow> jsstring \<Rightarrow> jsstring \<Rightarrow> client_event option" where
  "translateGoogleToOpenAIStream parse googleChunk modelName =
     (if googleChunk = [] \<or> trim googleChunk = [] then None
      else
        (case parse googleChunk of
           None \<Rightarrow> None
         | Some googleResponse \<Rightarrow>
             (case first_candidate googleResponse of
                None \<Rightarrow>
                  (case promptFeedback googleResponse of
                     Some (PromptFeedback blockReason) \<Rightarrow>
                       Some (OpenAIChunk FreshId modelName (Some (SafetyBlocked blockReason))
                               (Some (js ''stop'')))
                   | None \<Rightarrow> None)
              | Some c \<Rightarrow>
                  Some (OpenAIChunk FreshId modelName
                          (Some (Plain (candidateContent [] (Some c))))
                          (case finishReason c of
                             None \<Rightarrow> None
                           | Some f \<Rightarrow> if f = [] then None else Some f)))))"

section \<open>The pseudo-stream handlers\<close>

text \<open>
  The handlers run as one logical task: the interleaving of other requests at the
  \<^verbatim>\<open>await\<close> points and the heartbeat timer, which writes a content-free chunk every three
  seconds until the response has ended, are outside the model. A handler's \<^verbatim>\<open>try\<close>
  block returns the error it threw, if any, with the state reached.
\<close>

definition chatId :: "proxy_request \<Rightarrow> chunk_id" where
  "chatId proxyRequest = ForRequest (request_id proxyRequest)"

text \<open>The two chunks synthesised from the accumulated reply: the content, then the finish reason.\<close>

definition writeOpenAIReply ::
  "json_parser \<Rightarrow> proxy_request \<Rightarrow> jsstring \<Rightarrow> inbound \<Rightarrow> response \<Rightarrow> response" where
  "writeOpenAIReply parse proxyRequest model dataMessage res =
     (case msg_data dataMessage of
        None \<Rightarrow> res
      | Some d \<Rightarrow>
          (if d = [] then res
           else (case parse d of
                   None \<Rightarrow> res
                 | Some googleResponse \<Rightarrow>
                     (let candidate = first_candidate googleResponse;
                          content = candidateContent [] candidate;
                          finish = or_else (candidateFinish candidate) (js ''stop'');
                          res1 = writeSseChunk res
                                   (OpenAIChunk (chatId proxyRequest) model (Some (Plain content)) None)
                      in writeSseChunk res1
                           (OpenAIChunk (chatId proxyRequest) model None (Some finish))))))"

definition openAIPseudoStreamBody ::
  "config \<Rightarrow> browser_env \<Rightarrow> upstream \<Rightarrow> json_parser \<Rightarrow> proxy_request \<Rightarrow> jsstring \<Rightarrow>
     world \<Rightarrow> response \<Rightarrow> js_error option \<times> world \<times> response" where
  "openAIPseudoStreamBody cfg env up parse proxyRequest model w res =
     (case retryLoop cfg up proxyRequest 1 None w of
        (Inl error, w1) \<Rightarrow> (Some error, w1, res)
      | (Inr (lastMessage, requestFailed), w1) \<Rightarrow>
          (if requestFailed then
             (if opt_includes (lm_message lastMessage) abort_marker
              then (None, w1, writeSseChunk res DoneSentinel)
              else
                (case handleRequestFailureAndSwitch cfg env (lm_status lastMessage) (Some res) (hs w1) of
                   (rotation, h1, r1) \<Rightarrow>
                     (let res2 = writeSseChunk (res_after res r1)
                                   (OpenAIChunk (chatId proxyRequest) model
                                      (Some (FinalFailure (lm_message lastMessage)))
                                      (Some (js ''stop'')))
                      in (None, w1\<lparr>hs := h1\<rparr>, writeSseChunk res2 DoneSentinel))))
           else
             (let w2 = w1\<lparr>hs := countUsage cfg (resetFailureCount (hs w1))\<rparr> in
              case dequeue w2 of
                Inl error \<Rightarrow> (Some error, w2, res)
              | Inr (dataMessage, w3) \<Rightarrow>
                  (case dequeue w3 of
                     Inl error \<Rightarrow> (Some error, w3, res)
                   | Inr (endMessage, w4) \<Rightarrow>
                       (None, w4,
                        writeSseChunk (writeOpenAIReply parse proxyRequest model dataMessage res)
                          DoneSentinel)))))"

text \<open>
  \<^verbatim>\<open>_handleOpenAIPseudoStreamResponse\<close>: the response is marked as a pseudo stream and its
  headers are flushed before the first attempt; an error thrown by the body goes to
  \<^verbatim>\<open>_handleRequestError\<close>; the \<^verbatim>\<open>finally\<close> block ends the response.
\<close>

definition handleOpenAIPseudoStreamResponse ::
  "config \<Rightarrow> streaming_mode \<Rightarrow> browser_env \<Rightarrow> upstream \<Rightarrow> json_parser \<Rightarrow> proxy_request \<Rightarrow>
     jsstring \<Rightarrow> world \<Rightarrow> response \<Rightarrow> world \<times> response" where
  "handleOpenAIPseudoStreamResponse cfg mode env up parse proxyRequest model w res =
     (let res0 = res\<lparr>proxyPseudoStream := True, statusCode := 200, headersSent := True\<rparr> in
      case openAIPseudoStreamBody cfg env up parse proxyRequest model w res0 of
        (thrown, w1, res1) \<Rightarrow>
          (let res2 = (case thrown of None \<Rightarrow> res1 | Some error \<Rightarrow> handleRequestError mode error res1)
           in (w1, if \<not> writableEnded res2 then res_end res2 else res2)))"

text \<open>The success accounting of the native handlers applies to generative requests only.\<close>

definition nativeSuccess :: "config \<Rightarrow> proxy_request \<Rightarrow> handler \<Rightarrow> handler" where
  "nativeSuccess cfg proxyRequest h =
     (if is_generative proxyRequest then countUsage cfg (resetFailureCount h) else h)"

definition pseudoStreamBody ::
  "config \<Rightarrow> browser_env \<Rightarrow> upstream \<Rightarrow> proxy_request \<Rightarrow> world \<Rightarrow> response \<Rightarrow>
     js_error option \<times> world \<times> response" where
  "pseudoStreamBody cfg env up proxyRequest w res =
     (case retryLoop cfg up proxyRequest 1 None w of
        (Inl error, w1) \<Rightarrow> (Some error, w1, res)
      | (Inr (lastMessage, requestFailed), w1) \<Rightarrow>
          (if requestFailed then
             (if opt_includes (lm_message lastMessage) abort_marker
              then (None, w1, res)
              else
                (case handleRequestFailureAndSwitch cfg env (lm_status lastMessage) (Some res) (hs w1) of
                   (rotation, h1, r1) \<Rightarrow>
                     (None, w1\<lparr>hs := h1\<rparr>,
                      sendErrorChunkToClient (res_after res r1)
                        (FinalFailure (lm_message lastMessage)))))
           else
             (let w2 = w1\<lparr>hs := nativeSuccess cfg proxyRequest (hs w1)\<rparr> in
              case dequeue w2 of
                Inl error \<Rightarrow> (Some error, w2, res)
              | Inr (dataMessage, w3) \<Rightarrow>
                  (case dequeue w3 of
                     Inl error \<Rightarrow> (Some error, w3, res)
                   | Inr (endMessage, w4) \<Rightarrow>
                       (let res1 = (case msg_data dataMessage of
                                      None \<Rightarrow> res
                                    | Some d \<Rightarrow>
                                        if d = [] then res
                                        else writeSseChunk res
                                               (RawEvent (js ''data: '' @ d @ [LF, LF])))
                        in (None, w4, writeSseChunk res1 DoneSentinel))))))"

definition handlePseudoStreamResponse ::
  "config \<Rightarrow> streaming_mode \<Rightarrow> browser_env \<Rightarrow> upstream \<Rightarrow> proxy_request \<Rightarrow>
     world \<Rightarrow> response \<Rightarrow> world \<times> response" where
  "handlePseudoStreamResponse cfg mode env up proxyRequest w res =
     (let res0 = res\<lparr>proxyPseudoStream := True, statusCode := 200, headersSent := True\<rparr> in
      case pseudoStreamBody cfg env up proxyRequest w res0 of
        (thrown, w1, res1) \<Rightarrow>
          (let res2 = (case thrown of None \<Rightarrow> res1 | Some error \<Rightarrow> handleRequestError mode error res1)
           in (w1, if \<not> writableEnded res2 then res_end res2 else res2)))"

section \<open>The real-stream handlers\<close>

text \<open>
  The loop of \<^verbatim>\<open>_handleRealStreamResponse\<close>, on the messages still to come: every data
  chunk is written through; the end-of-stream message leaves the loop; when no message
  comes within the window \<^verbatim>\<open>dequeue\<close> throws. The result is the thrown error, the
  messages left and the response.
\<close>

fun realStreamLoop :: "inbound list \<Rightarrow> response \<Rightarrow> js_error option \<times> inbound list \<times> response" where
  "realStreamLoop [] res = (Some (Error queue_timeout_message), [], res)"
| "realStreamLoop (dataMessage # q) res =
     (if is_stream_end dataMessage then (None, q, res)
      else (case msg_data dataMessage of
              None \<Rightarrow> realStreamLoop q res
            | Some d \<Rightarrow>
                if d = [] then realStreamLoop q res
                else realStreamLoop q (writeSseChunk res (RawEvent d))))"

text \<open>\<^verbatim>\<open>_setResponseHeaders\<close>: the status of the first message, or 200, and the headers flushed.\<close>

definition setResponseHeaders :: "response \<Rightarrow> inbound \<Rightarrow> response" where
  "setResponseHeaders res headerMessage =
     res\<lparr>statusCode := (case msg_status headerMessage of
                           None \<Rightarrow> 200 | Some s \<Rightarrow> if s = 0 then 200 else s),
         headersSent := True\<rparr>"

text \<open>
  \<^verbatim>\<open>_handleRealStreamResponse\<close>. One request is forwarded. Inside the streaming
  \<^verbatim>\<open>try\<close> the only error is the queue's timeout, which the \<^verbatim>\<open>catch\<close> swallows; the
  \<^verbatim>\<open>finally\<close> ends the response. Errors before that point are thrown to the caller.
\<close>

definition handleRealStreamResponse ::
  "config \<Rightarrow> browser_env \<Rightarrow> upstream \<Rightarrow> proxy_request \<Rightarrow> world \<Rightarrow> response \<Rightarrow>
     js_error option \<times> world \<times> response" where
  "handleRealStreamResponse cfg env up proxyRequest w res =
     (case forwardRequest up proxyRequest w of
        Inl error \<Rightarrow> (Some error, w, res)
      | Inr w1 \<Rightarrow>
          (case dequeue w1 of
             Inl error \<Rightarrow> (Some error, w1, res)
           | Inr (headerMessage, w2) \<Rightarrow>
               (if is_error headerMessage then
                  (if opt_includes (msg_message headerMessage) abort_marker
                   then (None, w2, if \<not> writableEnded res then res_end res else res)
                   else
                     (case handleRequestFailureAndSwitch cfg env (msg_status headerMessage) None (hs w2) of
                        (rotation, h1, r1) \<Rightarrow>
                          (None, w2\<lparr>hs := h1\<rparr>,
                           sendErrorResponse res (msg_status headerMessage)
                             (map_option Plain (msg_message headerMessage)))))
                else
                  (let w3 = w2\<lparr>hs := nativeSuccess cfg proxyRequest (hs w2)\<rparr>;
                       res1 = setResponseHeaders res headerMessage
                   in case realStreamLoop (queue w3) res1 of
                        (timeout, q, res2) \<Rightarrow>
                          (None, w3\<lparr>queue := q\<rparr>,
                           if \<not> writableEnded res2 then res_end res2 else res2)))))"

text \<open>Writing the translation of each re-framed payload, in order.\<close>

fun writeTranslated :: "json_parser \<Rightarrow> jsstring \<Rightarrow> jsstring list \<Rightarrow> response \<Rightarrow> response" where
  "writeTranslated parse model [] res = res"
| "writeTranslated parse model (payload # ps) res =
     writeTranslated parse model ps
       (case translateGoogleToOpenAIStream parse payload model of
          None \<Rightarrow> res
        | Some translatedChunk \<Rightarrow> writeSseChunk res translatedChunk)"

text \<open>
  The loop of \<^verbatim>\<open>_handleOpenAIRealStreamResponse\<close>, on the messages still to come, with the
  accumulation buffer, the handler state and the response.
\<close>

fun openAIStreamLoop ::
  "config \<Rightarrow> browser_env \<Rightarrow> json_parser \<Rightarrow> proxy_request \<Rightarrow> jsstring \<Rightarrow> inbound list \<Rightarrow>
     jsstring \<Rightarrow> handler \<Rightarrow> response \<Rightarrow> js_error option \<times> inbound list \<times> handler \<times> response" where
  "openAIStreamLoop cfg env parse proxyRequest model [] sseBuffer h res =
     (Some (Error queue_timeout_message), [], h, res)"
| "openAIStreamLoop cfg env parse proxyRequest model (message # q) sseBuffer h res =
     (if is_stream_end message then
        (None, q, h,
         writeSseChunk (writeTranslated parse model (flushBuffer sseBuffer) res) DoneSentinel)
      else if is_error message then
        (case handleRequestFailureAndSwitch cfg env (msg_status message) (Some res) h of
           (rotation, h1, r1) \<Rightarrow>
             (let res2 = writeSseChunk (res_after res r1)
                           (OpenAIChunk (chatId proxyRequest) model
                              (Some (UpstreamStreamFailed (msg_message message)))
                              (Some (js ''error'')))
              in (None, q, h1, writeSseChunk res2 DoneSentinel)))
      else
        (case msg_data message of
           None \<Rightarrow> openAIStreamLoop cfg env parse proxyRequest model q sseBuffer h res
         | Some d \<Rightarrow>
             (case feedChunk sseBuffer d of
                (payloads, rest) \<Rightarrow>
                  openAIStreamLoop cfg env parse proxyRequest model q rest h
                    (writeTranslated parse model payloads res))))"

text \<open>
  \<^verbatim>\<open>_handleOpenAIRealStreamResponse\<close>. One request is forwarded and the first message is
  awaited with the queue's own timeout; an error as first message goes to the failure
  handler at once.
\<close>

definition handleOpenAIRealStreamResponse ::
  "config \<Rightarrow> browser_env \<Rightarrow> upstream \<Rightarrow> json_parser \<Rightarrow> proxy_request \<Rightarrow> jsstring \<Rightarrow>
     world \<Rightarrow> response \<Rightarrow> js_error option \<times> world \<times> response" where
  "handleOpenAIRealStreamResponse cfg env up parse proxyRequest model w res =
     (case forwardRequest up proxyRequest w of
        Inl error \<Rightarrow> (Some error, w, res)
      | Inr w1 \<Rightarrow>
          (case dequeue w1 of
             Inl error \<Rightarrow> (Some error, w1, res)
           | Inr (initialMessage, w2) \<Rightarrow>
               (if is_error initialMessage then
                  (case handleRequestFailureAndSwitch cfg env (msg_status initialMessage) (Some res) (hs w2) of
                     (rotation, h1, r1) \<Rightarrow>
                       (let res1 = res_after res r1
                        in (None, w2\<lparr>hs := h1\<rparr>,
                            if \<not> writableEnded res1
                            then res_end (writeSseChunk res1 DoneSentinel) else res1)))
                else
                  (let w3 = w2\<lparr>hs := countUsage cfg (resetFailureCount (hs w2))\<rparr>;
                       res1 = res\<lparr>statusCode := 200\<rparr>
                   in case openAIStreamLoop cfg env parse proxyRequest model (queue w3) [] (hs w3) res1 of
                        (thrown, q, h1, res2) \<Rightarrow> (thrown, w3\<lparr>queue := q, hs := h1\<rparr>, res2)))))"

section \<open>Mix mode: the streaming mode of one request\<close>

text \<open>The reserved prefix \<^verbatim>\<open>fakeStreamPrefix\<close>: three Chinese characters and a slash.\<close>

definition fakeStreamPrefix :: jsstring where
  "fakeStreamPrefix = [0x5047, 0x6D41, 0x5F0F, 0x2F]"

definition isMixStreamingEnabled :: "streaming_mode \<Rightarrow> bool" where
  "isMixStreamingEnabled mode = (mode = Mix)"

definition isFakeStreamModelId :: "jsstring \<Rightarrow> bool" where
  "isFakeStreamModelId modelId = prefix fakeStreamPrefix modelId"

definition stripFakeStreamPrefix :: "jsstring \<Rightarrow> jsstring" where
  "stripFakeStreamPrefix modelId =
     (if \<not> isFakeStreamModelId modelId then modelId
      else drop (length fakeStreamPrefix) modelId)"

text \<open>
  \<^verbatim>\<open>_normalizeMixModeModelId\<close>, on a model identifier that is a string.
  \<^verbatim>\<open>stripped || normalizedModelId\<close> falls back to the identifier as requested when
  nothing is left after the prefix.
\<close>

definition normalizeMixModeModelId :: "streaming_mode \<Rightarrow> jsstring \<Rightarrow> model_context" where
  "normalizeMixModeModelId mode modelId =
     (let fake = (isMixStreamingEnabled mode \<and> isFakeStreamModelId modelId);
          stripped = (if fake then stripFakeStreamPrefix modelId else modelId)
      in \<lparr>requestedModel = modelId,
          normalizedModel = (if stripped \<noteq> [] then stripped else modelId),
          isFake = fake\<rparr>)"

text \<open>\<^verbatim>\<open>_resolveStreamingModeForRequest\<close>; the context may be null.\<close>

definition resolveStreamingModeForRequest ::
  "streaming_mode \<Rightarrow> model_context option \<Rightarrow> streaming_mode" where
  "resolveStreamingModeForRequest mode modelContext =
     (if mode \<noteq> Mix then mode
      else (case modelContext of
              None \<Rightarrow> Real
            | Some c \<Rightarrow> if isFake c then Fake else Real))"

text \<open>
  The native entry point finds the model identifier in the request path.
  \<^verbatim>\<open>decodeURIComponent\<close> (\<open>None\<close> when it throws) and \<^verbatim>\<open>encodeURIComponent\<close> are
  parameters.
\<close>

record path_info =
  basePath :: jsstring
  encodedModelSegment :: jsstring
  suffix :: jsstring
  decodedModelId :: jsstring

definition modelPathPrefix :: "jsstring \<Rightarrow> jsstring option" where
  "modelPathPrefix p =
     (if prefix (js ''/v1beta/models/'') p then Some (js ''/v1beta/models/'')
      else if prefix (js ''/v1/models/'') p then Some (js ''/v1/models/'')
      else None)"

definition extractModelPathInfo ::
  "streaming_mode \<Rightarrow> (jsstring \<Rightarrow> jsstring option) \<Rightarrow> jsstring \<Rightarrow> path_info option" where
  "extractModelPathInfo mode decodeURIComponent p =
     (case modelPathPrefix p of
        None \<Rightarrow> None
      | Some base \<Rightarrow>
          (let remainder = drop (length base) p in
           if remainder = [] then None
           else
             (let splitIndex =
                    (case indexOf remainder 0x3A of
                       Some colonIndex \<Rightarrow> colonIndex
                     | None \<Rightarrow>
                         (if isMixStreamingEnabled mode \<and> prefix fakeStreamPrefix remainder
                          then length remainder
                          else (case indexOf remainder 0x2F of
                                  Some slashIndex \<Rightarrow> slashIndex
                                | None \<Rightarrow> length remainder)));
                  encodedSegment = take splitIndex remainder
              in if encodedSegment = [] then None
                 else Some \<lparr>basePath = base,
                            encodedModelSegment = encodedSegment,
                            suffix = drop splitIndex remainder,
                            decodedModelId = (case decodeURIComponent encodedSegment of
                                                None \<Rightarrow> encodedSegment
                                              | Some decoded \<Rightarrow> decoded)\<rparr>)))"

text \<open>
  \<^verbatim>\<open>_normalizeModelIdentifierInPath\<close>: the model context (null outside mix mode and for a
  path that names no model) and the proxy request, whose path is rewritten when the
  prefix was stripped.
\<close>

definition normalizeModelIdentifierInPath ::
  "streaming_mode \<Rightarrow> (jsstring \<Rightarrow> jsstring option) \<Rightarrow> (jsstring \<Rightarrow> jsstring) \<Rightarrow>
     proxy_request \<Rightarrow> model_context option \<times> proxy_request" where
  "normalizeModelIdentifierInPath mode decodeURIComponent encodeURIComponent proxyRequest =
     (if \<not> isMixStreamingEnabled mode then (None, proxyRequest)
      else
        (case extractModelPathInfo mode decodeURIComponent (path proxyRequest) of
           None \<Rightarrow> (None, proxyRequest)
         | Some info \<Rightarrow>
             (let fake = isFakeStreamModelId (decodedModelId info);
                  stripped = stripFakeStreamPrefix (decodedModelId info);
                  rewrite = (fake \<and> stripped \<noteq> []);
                  context = \<lparr>requestedModel = decodedModelId info,
                             normalizedModel = (if rewrite then stripped else decodedModelId info),
                             isFake = fake\<rparr>
              in (Some context,
                  proxyRequest\<lparr>path := (if rewrite
                                         then basePath info @ encodeURIComponent stripped
                                                @ suffix info
                                         else path proxyRequest),
                                mix_context := Some context\<rparr>))))"

section \<open>Translation of an OpenAI request\<close>

text \<open>
  The body of a chat-completion request. The content of a message is a string, an array
  of parts, or absent. A part is a text part, an image part (whose \<^verbatim>\<open>image_url\<close> object
  may be missing) or a part of another type. The generation parameters are JSON values
  that the translation passes on untouched, so their type is a parameter.
\<close>

datatype content_part = TextPart jsstring | ImagePart "jsstring option" | OtherPart

datatype content = StringContent jsstring | ArrayContent "content_part list" | NoContent

record oa_message =
  role :: jsstring
  content :: content

record 'j openai_body =
  oa_model :: "jsstring option"
  oa_stream :: bool
  messages :: "oa_message list option"
  temperature :: "'j option"
  top_p :: "'j option"
  top_k :: "'j option"
  max_tokens :: "'j option"
  stop :: "'j option"

record native_content =
  nrole :: jsstring
  parts :: "native_part list"

record 'j generation_config =
  gtemperature :: "'j option"
  topP :: "'j option"
  topK :: "'j option"
  maxOutputTokens :: "'j option"
  stopSequences :: "'j option"

record 'j google_request =
  contents :: "native_content list"
  systemInstruction :: "native_part list option"
  generationConfig :: "'j generation_config"
  safetySettings :: "(jsstring \<times> jsstring) list"

text \<open>
  The regular expression \<^verbatim>\<open>/^data:(image\/.*?);base64,(.*)$/\<close>. A dot matches any
  character but a line terminator. The lazy group is extended one character at a time
  until the rest of the pattern matches.
\<close>

definition is_line_terminator :: "jschar \<Rightarrow> bool" where
  "is_line_terminator c = (c = 0x0A \<or> c = 0x0D \<or> c = 0x2028 \<or> c = 0x2029)"

fun lazyBase64 :: "jsstring \<Rightarrow> jsstring \<Rightarrow> (jsstring \<times> jsstring) option" where
  "lazyBase64 acc [] = None"
| "lazyBase64 acc (c # cs) =
     (if prefix (js '';base64,'') (c # cs)
         \<and> list_all (\<lambda>x. \<not> is_line_terminator x) (drop 8 (c # cs))
      then Some (rev acc, drop 8 (c # cs))
      else if is_line_terminator c then None
      else lazyBase64 (c # acc) cs)"

definition matchDataUrl :: "jsstring \<Rightarrow> (jsstring \<times> jsstring) option" where
  "matchDataUrl dataUrl =
     (if prefix (js ''data:image/'') dataUrl
      then map_option (\<lambda>(m, d). (js ''image/'' @ m, d)) (lazyBase64 [] (drop 11 dataUrl))
      else None)"

fun translatePart :: "content_part \<Rightarrow> native_part list" where
  "translatePart (TextPart t) = [NText t]"
| "translatePart (ImagePart None) = []"
| "translatePart (ImagePart (Some dataUrl)) =
     (case matchDataUrl dataUrl of
        Some (mimeType, d) \<Rightarrow> [NInline mimeType d]
      | None \<Rightarrow> [])"
| "translatePart OtherPart = []"

fun translateContent :: "content \<Rightarrow> native_part list" where
  "translateContent (StringContent s) = [NText s]"
| "translateContent (ArrayContent ps) = concat (map translatePart ps)"
| "translateContent NoContent = []"

text \<open>
  What \<^verbatim>\<open>join\<close> makes of the content of a system message: a string as it is, an array
  of part objects as their default renderings separated by commas, a missing content as
  the empty string.
\<close>

fun systemText :: "content \<Rightarrow> jsstring" where
  "systemText (StringContent s) = s"
| "systemText (ArrayContent ps) = join (js '','') (map (\<lambda>p. js ''[object Object]'') ps)"
| "systemText NoContent = []"

definition block_none_settings :: "(jsstring \<times> jsstring) list" where
  "block_none_settings =
     [(js ''HARM_CATEGORY_HARASSMENT'', js ''BLOCK_NONE''),
      (js ''HARM_CATEGORY_HATE_SPEECH'', js ''BLOCK_NONE''),
      (js ''HARM_CATEGORY_SEXUALLY_EXPLICIT'', js ''BLOCK_NONE''),
      (js ''HARM_CATEGORY_DANGEROUS_CONTENT'', js ''BLOCK_NONE'')]"

definition type_error_message :: jsstring where
  "type_error_message = js ''Cannot read properties of undefined''"

definition translateMessage :: "oa_message \<Rightarrow> native_content" where
  "translateMessage message =
     \<lparr>nrole = (if role message = js ''assistant'' then js ''model'' else js ''user''),
      parts = translateContent (content message)\<rparr>"

text \<open>
  \<^verbatim>\<open>_translateOpenAIToGoogle\<close>. A body without \<^verbatim>\<open>messages\<close> makes the first
  \<^verbatim>\<open>filter\<close> throw a type error.
\<close>

definition translateOpenAIToGoogle :: "'j openai_body \<Rightarrow> js_error + 'j google_request" where
  "translateOpenAIToGoogle openaiBody =
     (case messages openaiBody of
        None \<Rightarrow> Inl (Error type_error_message)
      | Some msgs \<Rightarrow>
          (let systemMessages = filter (\<lambda>msg. role msg = js ''system'') msgs;
               instruction =
                 (if length systemMessages > 0
                  then Some [NText (join [LF] (map (\<lambda>msg. systemText (content msg)) systemMessages))]
                  else None);
               conversationMessages = filter (\<lambda>msg. role msg \<noteq> js ''system'') msgs
           in Inr \<lparr>contents = map translateMessage conversationMessages,
                   systemInstruction = instruction,
                   generationConfig =
                     \<lparr>gtemperature = temperature openaiBody,
                      topP = top_p openaiBody,
                      topK = top_k openaiBody,
                      maxOutputTokens = max_tokens openaiBody,
                      stopSequences = stop openaiBody\<rparr>,
                   safetySettings = block_none_settings\<rparr>))"

section \<open>An OpenAI request from admission to cleanup\<close>

text \<open>
  The accumulation loop of \<^verbatim>\<open>_handleOpenAINonStreamResponse\<close>, on the messages still to
  come: the data of the chunk messages is concatenated until the end-of-stream message.
\<close>

fun accumulateBody :: "inbound list \<Rightarrow> jsstring \<Rightarrow> (js_error + jsstring) \<times> inbound list" where
  "accumulateBody [] fullBody = (Inl (Error queue_timeout_message), [])"
| "accumulateBody (message # q) fullBody =
     (if is_stream_end message then (Inr fullBody, q)
      else (case msg_data message of
              None \<Rightarrow> accumulateBody q fullBody
            | Some d \<Rightarrow> accumulateBody q (fullBody @ d)))"

definition json_syntax_error :: jsstring where
  "json_syntax_error = js ''Unexpected end of JSON input''"

text \<open>
  \<^verbatim>\<open>_handleOpenAINonStreamResponse\<close>. One request is forwarded; the failure handler is
  called without a response; a body that does not parse makes \<^verbatim>\<open>JSON.parse\<close> throw
  (the text of that error is the engine's).
\<close>

definition handleOpenAINonStreamResponse ::
  "config \<Rightarrow> browser_env \<Rightarrow> upstream \<Rightarrow> json_parser \<Rightarrow> proxy_request \<Rightarrow> jsstring \<Rightarrow>
     world \<Rightarrow> response \<Rightarrow> js_error option \<times> world \<times> response" where
  "handleOpenAINonStreamResponse cfg env up parse proxyRequest model w res =
     (case forwardRequest up proxyRequest w of
        Inl error \<Rightarrow> (Some error, w, res)
      | Inr w1 \<Rightarrow>
          (case dequeue w1 of
             Inl error \<Rightarrow> (Some error, w1, res)
           | Inr (initialMessage, w2) \<Rightarrow>
               (if is_error initialMessage then
                  (case handleRequestFailureAndSwitch cfg env (msg_status initialMessage) None (hs w2) of
                     (rotation, h1, r1) \<Rightarrow>
                       (None, w2\<lparr>hs := h1\<rparr>,
                        sendErrorResponse res (msg_status initialMessage)
                          (map_option Plain (msg_message initialMessage))))
                else
                  (let w3 = w2\<lparr>hs := countUsage cfg (resetFailureCount (hs w2))\<rparr> in
                   case accumulateBody (queue w3) [] of
                     (Inl error, q) \<Rightarrow> (Some error, w3\<lparr>queue := q\<rparr>, res)
                   | (Inr fullBody, q) \<Rightarrow>
                       (case parse fullBody of
                          None \<Rightarrow> (Some (Error json_syntax_error), w3\<lparr>queue := q\<rparr>, res)
                        | Some googleResponse \<Rightarrow>
                            (let candidate = first_candidate googleResponse;
                                 responseContent = candidateContent [LF] candidate;
                                 finish = or_else (candidateFinish candidate) (js ''UNKNOWN'')
                             in (None, w3\<lparr>queue := q\<rparr>,
                                 res\<lparr>statusCode := 200,
                                     written := written res @
                                       [Completion (chatId proxyRequest) model responseContent finish],
                                     headersSent := True, writableEnded := True\<rparr>)))))))"

text \<open>
  \<^verbatim>\<open>processOpenAIRequest\<close>. The request id is generated at random and the check that
  the browser is ready reads the automation layer, so both are parameters, as is
  \<^verbatim>\<open>JSON.stringify\<close> of the translated body (\<open>encode\<close>). The rotation flagged for after
  the request is started in the \<^verbatim>\<open>finally\<close> block and its outcome is only logged.
\<close>

definition deferredSwitch :: "browser_env \<Rightarrow> handler \<Rightarrow> handler" where
  "deferredSwitch env h =
     (if needsSwitchingAfterRequest h
      then (snd (switchToNextAuth env h))\<lparr>needsSwitchingAfterRequest := False\<rparr>
      else h)"

definition requestedModelOf :: "'j openai_body \<Rightarrow> jsstring" where
  "requestedModelOf reqBody = or_else (oa_model reqBody) (js ''gemini-1.5-pro-latest'')"

text \<open>
  The model named in the upstream path, \<^verbatim>\<open>openAIModelContext.normalizedModel || model\<close>,
  and the proxy request as \<^verbatim>\<open>processOpenAIRequest\<close> builds it, before the streaming
  mode of the request is resolved.
\<close>

definition googleModelOf :: "streaming_mode \<Rightarrow> jsstring \<Rightarrow> jsstring" where
  "googleModelOf mode model =
     (if normalizedModel (normalizeMixModeModelId mode model) \<noteq> []
      then normalizedModel (normalizeMixModeModelId mode model) else model)"

definition openAIProxyRequest ::
  "streaming_mode \<Rightarrow> jsstring \<Rightarrow> bool \<Rightarrow> jsstring \<Rightarrow> jsstring \<Rightarrow> proxy_request" where
  "openAIProxyRequest mode model isOpenAIStream requestBody requestId =
     \<lparr>path = js ''/v1beta/models/'' @ googleModelOf mode model @ js '':''
              @ (if isOpenAIStream then js ''streamGenerateContent'' else js ''generateContent''),
      http_method = js ''POST'',
      headers = [(js ''Content-Type'', js ''application/json'')],
      query_params = (if isOpenAIStream then [(js ''alt'', js ''sse'')] else []),
      body = requestBody,
      request_id = requestId,
      is_generative = True,
      streaming_mode = mode,
      client_wants_stream = Some True,
      mix_context = None\<rparr>"

definition processOpenAIRequest ::
  "config \<Rightarrow> streaming_mode \<Rightarrow> browser_env \<Rightarrow> upstream \<Rightarrow> json_parser \<Rightarrow>
     ('j google_request \<Rightarrow> jsstring) \<Rightarrow> jsstring \<Rightarrow> bool \<Rightarrow> 'j openai_body \<Rightarrow>
     world \<Rightarrow> response \<Rightarrow> world \<times> response" where
  "processOpenAIRequest cfg mode env up parse encode requestId browserReady reqBody w res =
     (let isOpenAIStream = oa_stream reqBody;
          model = requestedModelOf reqBody;
          openAIModelContext = normalizeMixModeModelId mode model
      in if isSystemBusy (hs w) then (w, sendErrorResponse res (Some 503) (Some BusyNotice))
         else if \<not> browserReady then (w, sendErrorResponse res (Some 503) (Some StartingNotice))
         else
           (case translateOpenAIToGoogle reqBody of
              Inl error \<Rightarrow>
                (w, sendErrorResponse res (Some 400)
                      (Some (Plain (js ''Invalid OpenAI request format.''))))
            | Inr googleBody \<Rightarrow>
                (let proxyRequest =
                       openAIProxyRequest mode model isOpenAIStream (encode googleBody) requestId;
                     resolvedStreamMode =
                       resolveStreamingModeForRequest mode (Some openAIModelContext);
                     (thrown, w1, res1) =
                       (if isOpenAIStream then
                          (if resolvedStreamMode = Fake then
                             (case handleOpenAIPseudoStreamResponse cfg mode env up parse
                                     (proxyRequest\<lparr>streaming_mode := resolvedStreamMode\<rparr>)
                                     model w res of
                                (w', res') \<Rightarrow> (None, w', res'))
                           else
                             handleOpenAIRealStreamResponse cfg env up parse
                               (proxyRequest\<lparr>streaming_mode := resolvedStreamMode\<rparr>)
                               model w res)
                        else
                          handleOpenAINonStreamResponse cfg env up parse
                            (proxyRequest\<lparr>streaming_mode := Fake\<rparr>) model w res);
                     res2 = (case thrown of
                               None \<Rightarrow> res1
                             | Some error \<Rightarrow> handleRequestError mode error res1);
                     res3 = (if \<not> writableEnded res2 then res_end res2 else res2)
                 in (w1\<lparr>queue := [], hs := deferredSwitch env (hs w1)\<rparr>, res3))))"

section \<open>A native request from admission to cleanup\<close>

text \<open>
  The client's request as \<^verbatim>\<open>processRequest\<close> reads it. \<open>req_body\<close> is the body as
  \<^verbatim>\<open>JSON.stringify\<close> renders it, empty for a request without a body.
\<close>

record client_request =
  req_path :: jsstring
  req_method :: jsstring
  req_headers :: "(jsstring \<times> jsstring) list"
  req_query :: "(jsstring \<times> jsstring) list"
  req_body :: jsstring

text \<open>
  \<^verbatim>\<open>_buildProxyRequest\<close>. It sets neither \<^verbatim>\<open>is_generative\<close>, which \<^verbatim>\<open>processRequest\<close>
  assigns next, nor \<^verbatim>\<open>client_wants_stream\<close>.
\<close>

definition buildProxyRequest :: "streaming_mode \<Rightarrow> client_request \<Rightarrow> jsstring \<Rightarrow> proxy_request" where
  "buildProxyRequest mode req requestId =
     \<lparr>path = req_path req,
      http_method = req_method req,
      headers = req_headers req,
      query_params = req_query req,
      body = req_body req,
      request_id = requestId,
      is_generative = False,
      streaming_mode = mode,
      client_wants_stream = None,
      mix_context = None\<rparr>"

definition wantsStream :: "client_request \<Rightarrow> bool" where
  "wantsStream req =
     (let wantsStreamByHeader =
            (case map_of (req_headers req) (js ''accept'') of
               None \<Rightarrow> False
             | Some accept \<Rightarrow> accept \<noteq> [] \<and> js_includes accept (js ''text/event-stream''));
          wantsStreamByPath = js_includes (req_path req) (js '':streamGenerateContent'')
      in wantsStreamByHeader \<or> wantsStreamByPath)"

text \<open>
  \<^verbatim>\<open>processRequest\<close>. The request id and the check that the browser is ready are
  parameters, as for \<^verbatim>\<open>processOpenAIRequest\<close>; so is \<^verbatim>\<open>_handleNonStreamResponse\<close>, the
  handler of a client that wants no stream, which re-serialises the upstream body and is
  outside this development. Without a connection to the browser the handler first
  relaunches the current account, under the busy lock; whether the channel is open again
  afterwards is decided outside the handler, and \<open>connected\<close> is left as it was. Unlike
  \<^verbatim>\<open>processOpenAIRequest\<close>, the \<^verbatim>\<open>finally\<close> block does not end the response.
\<close>

definition processRequest ::
  "config \<Rightarrow> streaming_mode \<Rightarrow> browser_env \<Rightarrow> upstream \<Rightarrow> (jsstring \<Rightarrow> jsstring option) \<Rightarrow>
     (jsstring \<Rightarrow> jsstring) \<Rightarrow>
     (proxy_request \<Rightarrow> world \<Rightarrow> response \<Rightarrow> js_error option \<times> world \<times> response) \<Rightarrow>
     jsstring \<Rightarrow> bool \<Rightarrow> client_request \<Rightarrow> world \<Rightarrow> response \<Rightarrow> world \<times> response" where
  "processRequest cfg mode env up decodeURIComponent encodeURIComponent handleNonStreamResponse
       requestId browserReady req w res =
     (if \<not> connected w \<and> isSystemBusy (hs w)
      then (w, sendErrorResponse res (Some 503) (Some MaintenanceNotice))
      else
        (let (recovery, h0) =
               (if \<not> connected w then
                  (case launchOrSwitchContext env (currentAuthIndex (hs w))
                          ((hs w)\<lparr>isSystemBusy := True\<rparr>) of
                     (r, h') \<Rightarrow> (r, h'\<lparr>isSystemBusy := False\<rparr>))
                else (None, hs w));
             w0 = w\<lparr>hs := h0\<rparr>
         in case recovery of
              Some error \<Rightarrow> (w0, sendErrorResponse res (Some 503) (Some RecoveryFailedNotice))
            | None \<Rightarrow>
                if isSystemBusy (hs w0)
                then (w0, sendErrorResponse res (Some 503) (Some BusyNotice))
                else if \<not> browserReady
                then (w0, sendErrorResponse res (Some 503) (Some StartingNotice))
                else
                  (let isGenerativeRequest =
                         (req_method req = js ''POST''
                          \<and> (js_includes (req_path req) (js ''generateContent'')
                               \<or> js_includes (req_path req) (js ''streamGenerateContent'')));
                       (mixModelContext, normalized) =
                         normalizeModelIdentifierInPath mode decodeURIComponent encodeURIComponent
                           (buildProxyRequest mode req requestId);
                       proxyRequest = normalized\<lparr>is_generative := isGenerativeRequest\<rparr>;
                       (thrown, w1, res1) =
                         (if wantsStream req then
                            (let resolvedStreamMode =
                                   resolveStreamingModeForRequest mode mixModelContext
                             in if resolvedStreamMode = Fake then
                                  (case handlePseudoStreamResponse cfg mode env up
                                          (proxyRequest\<lparr>streaming_mode := resolvedStreamMode\<rparr>)
                                          w0 res of
                                     (w', res') \<Rightarrow> (None, w', res'))
                                else
                                  handleRealStreamResponse cfg env up
                                    (proxyRequest\<lparr>streaming_mode := resolvedStreamMode\<rparr>)
                                    w0 res)
                          else
                            handleNonStreamResponse (proxyRequest\<lparr>streaming_mode := Fake\<rparr>)
                              w0 res);
                       res2 = (case thrown of
                                 None \<Rightarrow> res1
                               | Some error \<Rightarrow> handleRequestError mode error res1)
                   in (w1\<lparr>queue := [], hs := deferredSwitch env (hs w1)\<rparr>, res2))))"

section \<open>Concrete configurations and states\<close>

text \<open>Inputs on which the theorems below are instantiated and the handlers are run.\<close>

definition demo_config :: config where
  "demo_config = \<lparr>maxRetries = 3, retryDelay = 0, failureThreshold = 3, switchOnUses = 40,
                   immediateSwitchStatusCodes = [429, 503]\<rparr>"

definition threshold_off_config :: config where
  "threshold_off_config = \<lparr>maxRetries = 3, retryDelay = 0, failureThreshold = 0,
                            switchOnUses = 40, immediateSwitchStatusCodes = [429, 503]\<rparr>"

definition fresh_handler :: handler where
  "fresh_handler = \<lparr>failureCount = 0, usageCount = 0, isAuthSwitching = False,
     needsSwitchingAfterRequest = False, isSystemBusy = False, currentAuthIndex = 1,
     availableIndices = [1, 2], launches = 0\<rparr>"

definition two_accounts :: handler where
  "two_accounts = \<lparr>failureCount = 2, usageCount = 5, isAuthSwitching = False,
     needsSwitchingAfterRequest = False, isSystemBusy = False, currentAuthIndex = 1,
     availableIndices = [1, 2], launches = 0\<rparr>"

definition one_account :: handler where
  "one_account = \<lparr>failureCount = 2, usageCount = 5, isAuthSwitching = False,
     needsSwitchingAfterRequest = False, isSystemBusy = False, currentAuthIndex = 1,
     availableIndices = [1], launches = 0\<rparr>"

definition stale_account :: handler where
  "stale_account = \<lparr>failureCount = 0, usageCount = 0, isAuthSwitching = False,
     needsSwitchingAfterRequest = False, isSystemBusy = False, currentAuthIndex = 7,
     availableIndices = [3, 5], launches = 0\<rparr>"

definition reliable_env :: browser_env where
  "reliable_env n i = None"

definition bad_target_env :: browser_env where
  "bad_target_env n i = (if i = 2 then Some (Error (js ''boom'')) else None)"

definition fresh_response :: response where
  "fresh_response = \<lparr>headersSent = False, writableEnded = False, statusCode = 200,
     proxyPseudoStream = False, written = []\<rparr>"

text \<open>
  One event with two data lines and CRLF line ends, and its two halves when the chunk
  boundary falls between the first carriage return and its line feed.
\<close>

definition crlf_stream :: jsstring where
  "crlf_stream = js ''data: first'' @ [CR, LF] @ js ''data: second'' @ [CR, LF, CR, LF]"

definition crlf_head :: jsstring where
  "crlf_head = js ''data: first'' @ [CR]"

definition crlf_tail :: jsstring where
  "crlf_tail = [LF] @ js ''data: second'' @ [CR, LF, CR, LF]"

text \<open>
  What a real stream passes through: the data of the chunk messages before the
  end-of-stream message, each as it came.
\<close>

fun passedThrough :: "inbound list \<Rightarrow> client_event list" where
  "passedThrough [] = []"
| "passedThrough (m # q) =
     (if is_stream_end m then []
      else (case msg_data m of
              None \<Rightarrow> passedThrough q
            | Some d \<Rightarrow> if d = [] then passedThrough q else RawEvent d # passedThrough q))"

fun is_raw :: "client_event \<Rightarrow> bool" where
  "is_raw (RawEvent d) = True"
| "is_raw _ = False"

text \<open>A request, an idle state with a live channel, and an upstream that stalls mid-stream.\<close>

definition demo_request :: proxy_request where
  "demo_request = \<lparr>path = js ''/v1beta/models/gemini-pro:streamGenerateContent'',
     http_method = js ''POST'', headers = [], query_params = [(js ''alt'', js ''sse'')],
     body = js ''{}'', request_id = js ''r1'', is_generative = True, streaming_mode = Real,
     client_wants_stream = None, mix_context = None\<rparr>"

definition idle_world :: world where
  "idle_world = \<lparr>hs = fresh_handler, queue = [], forwarded = [], slept = [], awaited = [],
                  connected = True\<rparr>"

definition stalling_upstream :: upstream where
  "stalling_upstream n r = [HeadersMsg (Some 200) [], ChunkMsg (js ''data: partial'')]"


definition streaming_response :: response where
  "streaming_response = \<lparr>headersSent = True, writableEnded = False, statusCode = 200,
     proxyPseudoStream = True, written = []\<rparr>"

text \<open>A model identifier carrying the reserved prefix.\<close>

definition marked_model :: jsstring where
  "marked_model = fakeStreamPrefix @ js ''gemini-pro''"

text \<open>The four harm categories, and a chat request with a system message and an inline image.\<close>

definition harm_categories :: "jsstring list" where
  "harm_categories =
     [js ''HARM_CATEGORY_HARASSMENT'', js ''HARM_CATEGORY_HATE_SPEECH'',
      js ''HARM_CATEGORY_SEXUALLY_EXPLICIT'', js ''HARM_CATEGORY_DANGEROUS_CONTENT'']"

definition demo_messages :: "oa_message list" where
  "demo_messages =
     [\<lparr>role = js ''system'', content = StringContent (js ''be brief'')\<rparr>,
      \<lparr>role = js ''user'',
       content = ArrayContent [TextPart (js ''hi''),
                               ImagePart (Some (js ''data:image/png;base64,AAAA''))]\<rparr>,
      \<lparr>role = js ''assistant'', content = StringContent (js ''hello'')\<rparr>,
      \<lparr>role = js ''system'', content = StringContent (js ''be kind'')\<rparr>]"

definition demo_body :: "int openai_body" where
  "demo_body = \<lparr>oa_model = Some (js ''gemini-pro''), oa_stream = True,
     messages = Some demo_messages, temperature = Some 1, top_p = Some 2, top_k = Some 3,
     max_tokens = Some 4, stop = None\<rparr>"

text \<open>
  Notions used to state the retry properties. A reply makes an attempt fail when nothing
  arrives within the window or when it is one error message; \<open>firstMessage\<close> is the first
  message the handler then sees; a reply marks a user-initiated abort when it is one error
  message whose text contains the abort marker. An event written to the client is an error
  event when it is an error object, an error body, or a chunk whose content is one of the
  handler's own messages.
\<close>

fun attemptFails :: "inbound list \<Rightarrow> bool" where
  "attemptFails [] = True"
| "attemptFails [m] = is_error m"
| "attemptFails _ = False"

fun firstMessage :: "inbound list \<Rightarrow> inbound" where
  "firstMessage [] = ErrorMsg (Some 504) (Some browser_timeout_message)"
| "firstMessage (m # _) = m"



fun abortReply :: "inbound list \<Rightarrow> bool" where
  "abortReply [ErrorMsg s (Some m)] = (m \<noteq> [] \<and> js_includes m abort_marker)"
| "abortReply _ = False"

text \<open>
  A parser that reads every body as one candidate with the text \<^verbatim>\<open>ok\<close>; an upstream
  that fails the first two attempts and then succeeds; an upstream that answers every
  attempt with the error of an aborted request.
\<close>

definition demo_parse :: json_parser where
  "demo_parse s = Some \<lparr>candidates = [\<lparr>content_parts = Some [NText (js ''ok'')],
                                          finishReason = Some (js ''STOP'')\<rparr>],
                        promptFeedback = None\<rparr>"

definition flaky_upstream :: upstream where
  "flaky_upstream n r =
     (if n < 2 then [ErrorMsg (Some 500) (Some (js ''boom''))]
      else [HeadersMsg (Some 200) [], ChunkMsg (js ''{}''), StreamEnd])"

definition aborting_upstream :: upstream where
  "aborting_upstream n r = [ErrorMsg (Some 500) (Some (js ''The user aborted a request.''))]"

text \<open>
  A streaming request for the marked model, an encoder that renders every body as
  \<^verbatim>\<open>{}\<close>, and the proxy request built for it.
\<close>

definition demo_encode :: "int google_request \<Rightarrow> jsstring" where
  "demo_encode g = js ''{}''"

definition marked_body :: "int openai_body" where
  "marked_body = demo_body\<lparr>oa_model := Some marked_model\<rparr>"

definition marked_proxy_request :: proxy_request where
  "marked_proxy_request =
     (openAIProxyRequest Mix marked_model True (js ''{}'') (js ''r1''))\<lparr>streaming_mode := Fake\<rparr>"

text \<open>
  A native streaming request for the marked model, with a decoder and an encoder for
  identifiers that need no escaping, a handler parameter that does nothing, and the
  request that is expected upstream.
\<close>

definition marked_client_request :: client_request where
  "marked_client_request =
     \<lparr>req_path = js ''/v1beta/models/'' @ marked_model @ js '':streamGenerateContent'',
      req_method = js ''POST'',
      req_headers = [(js ''content-type'', js ''application/json'')],
      req_query = [(js ''alt'', js ''sse'')],
      req_body = js ''{}''\<rparr>"

definition demo_decode :: "jsstring \<Rightarrow> jsstring option" where
  "demo_decode s = Some s"

definition demo_encodeURI :: "jsstring \<Rightarrow> jsstring" where
  "demo_encodeURI s = s"

definition no_handler :: "proxy_request \<Rightarrow> world \<Rightarrow> response \<Rightarrow> js_error option \<times> world \<times> response" where
  "no_handler r w res = (None, w, res)"

definition marked_native_request :: proxy_request where
  "marked_native_request =
     \<lparr>path = js ''/v1beta/models/gemini-pro:streamGenerateContent'',
      http_method = js ''POST'',
      headers = [(js ''content-type'', js ''application/json'')],
      query_params = [(js ''alt'', js ''sse'')],
      body = js ''{}'',
      request_id = js ''r1'',
      is_generative = True,
      streaming_mode = Fake,
      client_wants_stream = None,
      mix_context = Some \<lparr>requestedModel = marked_model,
                            normalizedModel = js ''gemini-pro'',
                            isFake = True\<rparr>\<rparr>"

text \<open>
  Further notions used to state the retry properties. \<open>attemptsMade cfg req k w\<close>: in the
  state \<open>w\<close> reached from a state with empty traces, \<open>k\<close> attempts have been made, that
  is, the request was forwarded \<open>k\<close> times, the first message of each attempt was awaited
  with a limit of 300000 milliseconds, and \<^verbatim>\<open>retryDelay\<close> was waited between consecutive
  attempts. \<open>answersFailureAlone up req\<close>: the upstream answers a failed attempt with the
  error message alone (or with nothing), so that nothing is left in the queue when the next
  attempt starts. An upstream that answers every attempt with the same error.
\<close>

definition attemptsMade :: "config \<Rightarrow> proxy_request \<Rightarrow> nat \<Rightarrow> world \<Rightarrow> bool" where
  "attemptsMade cfg req k w =
     (forwarded w = replicate k req
      \<and> awaited w = replicate k 300000
      \<and> slept w = replicate (k - 1) (retryDelay cfg))"



text \<open>
  A configuration that rotates after every use, a state with one usable account, an
  upstream whose reply breaks off with an error after its first message, and the proxy
  request of a chat request for \<^verbatim>\<open>gemini-pro\<close> under the global mode \<^verbatim>\<open>real\<close>.
\<close>

definition usage_config :: config where
  "usage_config = \<lparr>maxRetries = 3, retryDelay = 0, failureThreshold = 3, switchOnUses = 1,
                    immediateSwitchStatusCodes = [429, 503]\<rparr>"

definition single_world :: world where
  "single_world = idle_world\<lparr>hs := fresh_handler\<lparr>availableIndices := [1]\<rparr>\<rparr>"

definition interrupted_upstream :: upstream where
  "interrupted_upstream n r =
     [HeadersMsg (Some 200) [], ErrorMsg (Some 500) (Some (js ''boom''))]"

definition plain_proxy_request :: proxy_request where
  "plain_proxy_request =
     (openAIProxyRequest Real (js ''gemini-pro'') True (js ''{}'') (js ''r1''))"

text \<open>
  A chat request whose system message has an array of parts as its content, and whose user
  message carries an image as a base64 data URL that ends with a line feed.
\<close>

definition wrapped_image_url :: jsstring where
  "wrapped_image_url = js ''data:image/png;base64,AAAA'' @ [LF]"

definition array_system_messages :: "oa_message list" where
  "array_system_messages =
     [\<lparr>role = js ''system'', content = ArrayContent [TextPart (js ''be brief'')]\<rparr>,
      \<lparr>role = js ''user'',
       content = ArrayContent [TextPart (js ''hi''), ImagePart (Some wrapped_image_url)]\<rparr>]"

definition array_system_body :: "int openai_body" where
  "array_system_body = demo_body\<lparr>messages := Some array_system_messages\<rparr>"

section \<open>Properties of rotation\<close>

lemma indexOf_None_iff: "indexOf xs x = None \<longleftrightarrow> x \<notin> set xs"
  by (induction xs) auto

lemma getNextAuthIndex_locks [simp]:
  "getNextAuthIndex (h\<lparr>isAuthSwitching := a, isSystemBusy := b\<rparr>) = getNextAuthIndex h"
  by (simp add: getNextAuthIndex_def Let_def)

lemma includes_only_one: "js_includes only_one_message (js ''Only one account is available'')"
  by (simp add: only_one_message_def js_def)

text \<open>
  C10. When the current account index is not in the list of usable indices, computing the
  next rotation target does not fail: it returns the first usable index if there is one,
  and null only when the list is empty.
\<close>

theorem getNextAuthIndex_not_listed:
  assumes "currentAuthIndex h \<notin> set (availableIndices h)"
  shows "getNextAuthIndex h =
           (case availableIndices h of [] \<Rightarrow> None | first # _ \<Rightarrow> Some first)"
proof (cases "availableIndices h")
  case Nil
  then show ?thesis by (simp add: getNextAuthIndex_def)
next
  case (Cons a as)
  from assms have "indexOf (availableIndices h) (currentAuthIndex h) = None"
    by (simp add: indexOf_None_iff)
  with Cons show ?thesis by (simp add: getNextAuthIndex_def)
qed

theorem getNextAuthIndex_not_listed_witness:
  "currentAuthIndex stale_account \<notin> set (availableIndices stale_account)
   \<and> getNextAuthIndex stale_account = Some 3"
  using getNextAuthIndex_not_listed [of stale_account]
  by (simp add: stale_account_def)

text \<open>
  C3. When the switch to the next account fails and the move back to the previous account
  succeeds, \<^verbatim>\<open>_switchToNextAuth\<close> returns \<^verbatim>\<open>success: false\<close> with \<^verbatim>\<open>fallback: true\<close>,
  the current account index is the one from before the rotation, both counters are 0, and
  both locks are released.
\<close>

theorem switchToNextAuth_fallback:
  assumes two: "length (availableIndices h) > 1"
    and unlocked: "\<not> isAuthSwitching h"
    and target: "getNextAuthIndex h = Some n"
    and bad: "env (launches h) n = Some err"
    and fb_ok: "env (launches h + 1) (currentAuthIndex h) = None"
  shows "\<exists>r h'. switchToNextAuth env h = (Inr r, h')
           \<and> \<not> success r \<and> fallback r \<and> r = FallbackOk (currentAuthIndex h)
           \<and> currentAuthIndex h' = currentAuthIndex h
           \<and> failureCount h' = 0 \<and> usageCount h' = 0
           \<and> \<not> isAuthSwitching h' \<and> \<not> isSystemBusy h'"
  using assms
  by (simp add: switchToNextAuth_def switchAccount_def launchOrSwitchContext_def Let_def)

theorem switchToNextAuth_fallback_witness:
  "\<exists>h'. switchToNextAuth bad_target_env two_accounts = (Inr (FallbackOk 1), h')
         \<and> currentAuthIndex h' = 1 \<and> failureCount h' = 0 \<and> usageCount h' = 0"
proof -
  have "length (availableIndices two_accounts) > 1" "\<not> isAuthSwitching two_accounts"
       "getNextAuthIndex two_accounts = Some 2"
       "bad_target_env (launches two_accounts) 2 = Some (Error (js ''boom''))"
       "bad_target_env (launches two_accounts + 1) (currentAuthIndex two_accounts) = None"
    by (simp_all add: two_accounts_def bad_target_env_def getNextAuthIndex_def)
  from switchToNextAuth_fallback [OF this]
  show ?thesis by (auto simp: two_accounts_def)
qed

text \<open>
  C6, as amended. While fewer than two accounts are usable, every call of
  \<^verbatim>\<open>_switchToNextAuth\<close> throws the only-one-account error and changes nothing, the current
  account index included. When the call comes from a request failure that calls for
  rotation (its status is in the immediate-switch set, or the counter reaches the
  threshold), the failure handler catches the error, resets the failure counter to 0,
  changes nothing else, tells the client (when it has a response) and returns normally.
  When it is the rotation flagged for after the request, the error is only logged: the flag
  is cleared and nothing else changes, the failure counter included.
\<close>

theorem only_one_account_rotation:
  assumes one: "length (availableIndices h) \<le> 1"
  shows "switchToNextAuth env h = (Inl (Error only_one_message), h)
       \<and> ((\<exists>s. status = Some s \<and> s \<in> set (immediateSwitchStatusCodes cfg))
           \<or> (failureThreshold cfg > 0 \<and> failureCount h + 1 \<ge> failureThreshold cfg) \<longrightarrow>
            handleRequestFailureAndSwitch cfg env status res h =
              (Some (Inl (Error only_one_message)), h\<lparr>failureCount := 0\<rparr>,
               notifyClient res OnlyOneNotice))
       \<and> (needsSwitchingAfterRequest h \<longrightarrow>
            deferredSwitch env h = h\<lparr>needsSwitchingAfterRequest := False\<rparr>)"
proof -
  have sw: "\<And>h0. length (availableIndices h0) \<le> 1 \<Longrightarrow>
              switchToNextAuth env h0 = (Inl (Error only_one_message), h0)"
    by (simp add: switchToNextAuth_def)
  have failure: "handleRequestFailureAndSwitch cfg env status res h =
              (Some (Inl (Error only_one_message)), h\<lparr>failureCount := 0\<rparr>,
               notifyClient res OnlyOneNotice)"
    if due: "(\<exists>s. status = Some s \<and> s \<in> set (immediateSwitchStatusCodes cfg))
           \<or> (failureThreshold cfg > 0 \<and> failureCount h + 1 \<ge> failureThreshold cfg)"
  proof (cases "failureThreshold cfg > 0")
    case True
    with one due show ?thesis
      by (auto simp: handleRequestFailureAndSwitch_def Let_def sw includes_only_one)
  next
    case False
    with one due show ?thesis
      by (auto simp: handleRequestFailureAndSwitch_def Let_def sw includes_only_one)
  qed
  have deferred: "needsSwitchingAfterRequest h \<longrightarrow>
            deferredSwitch env h = h\<lparr>needsSwitchingAfterRequest := False\<rparr>"
    using one by (simp add: deferredSwitch_def sw)
  from sw [OF one] failure deferred show ?thesis by blast
qed

theorem only_one_account_rotation_witness:
  "switchToNextAuth reliable_env one_account = (Inl (Error only_one_message), one_account)
   \<and> handleRequestFailureAndSwitch demo_config reliable_env (Some 500) None one_account =
       (Some (Inl (Error only_one_message)), one_account\<lparr>failureCount := 0\<rparr>, None)
   \<and> currentAuthIndex (one_account\<lparr>failureCount := 0\<rparr>) = 1
   \<and> deferredSwitch reliable_env (one_account\<lparr>needsSwitchingAfterRequest := True\<rparr>) =
       one_account"
proof -
  have one: "length (availableIndices one_account) \<le> 1"
    "length (availableIndices (one_account\<lparr>needsSwitchingAfterRequest := True\<rparr>)) \<le> 1"
    by (simp_all add: one_account_def)
  have due: "(\<exists>s. Some 500 = Some s \<and> s \<in> set (immediateSwitchStatusCodes demo_config))
      \<or> (failureThreshold demo_config > 0
          \<and> failureCount one_account + 1 \<ge> failureThreshold demo_config)"
    by (simp add: one_account_def demo_config_def)
  from only_one_account_rotation [OF one(1), of reliable_env "Some 500" demo_config None] due
  have a: "switchToNextAuth reliable_env one_account = (Inl (Error only_one_message), one_account)
   \<and> handleRequestFailureAndSwitch demo_config reliable_env (Some 500) None one_account =
       (Some (Inl (Error only_one_message)), one_account\<lparr>failureCount := 0\<rparr>, None)"
    by (auto simp: notifyClient_def)
  from only_one_account_rotation [OF one(2), of reliable_env None demo_config None]
  have b: "deferredSwitch reliable_env (one_account\<lparr>needsSwitchingAfterRequest := True\<rparr>) =
       one_account"
    by (simp add: one_account_def)
  have c: "currentAuthIndex (one_account\<lparr>failureCount := 0\<rparr>) = 1"
    by (simp add: one_account_def)
  from a b c show ?thesis by blast
qed

text \<open>
  C6 as stated fails for the rotation flagged for after a request. With one usable account
  and rotation after every use, a streaming reply that breaks off after its first message
  counts one use and one failure; the rotation attempted when the request is over fails
  with the only-one-account error, and the failure counter is still 1 afterwards.
\<close>

theorem only_one_account_counterexample:
  "availableIndices (hs single_world) = [1]
   \<and> failureCount (hs single_world) = 0
   \<and> hs (fst (snd (handleOpenAIRealStreamResponse usage_config reliable_env interrupted_upstream
                      demo_parse plain_proxy_request (js ''gemini-pro'') single_world
                      fresh_response))) =
       fresh_handler\<lparr>availableIndices := [1], usageCount := 1, failureCount := 1,
                      needsSwitchingAfterRequest := True\<rparr>
   \<and> switchToNextAuth reliable_env
        (fresh_handler\<lparr>availableIndices := [1], usageCount := 1, failureCount := 1,
                       needsSwitchingAfterRequest := True\<rparr>) =
       (Inl (Error only_one_message),
        fresh_handler\<lparr>availableIndices := [1], usageCount := 1, failureCount := 1,
                       needsSwitchingAfterRequest := True\<rparr>)
   \<and> hs (fst (processOpenAIRequest usage_config Real reliable_env interrupted_upstream demo_parse
                 demo_encode (js ''r1'') True demo_body single_world fresh_response)) =
       fresh_handler\<lparr>availableIndices := [1], usageCount := 1, failureCount := 1\<rparr>"
proof -
  obtain g where tr: "translateOpenAIToGoogle demo_body = Inr g"
    by (simp add: translateOpenAIToGoogle_def demo_body_def Let_def)
  have model: "requestedModelOf demo_body = js ''gemini-pro''"
    by (simp add: requestedModelOf_def demo_body_def or_else_def js_def)
  have real: "hs (fst (snd (handleOpenAIRealStreamResponse usage_config reliable_env
                      interrupted_upstream demo_parse plain_proxy_request (js ''gemini-pro'')
                      single_world fresh_response))) =
       fresh_handler\<lparr>availableIndices := [1], usageCount := 1, failureCount := 1,
                      needsSwitchingAfterRequest := True\<rparr>"
    by (simp add: handleOpenAIRealStreamResponse_def forwardRequest_def dequeue_def
          single_world_def idle_world_def interrupted_upstream_def usage_config_def
          handleRequestFailureAndSwitch_def fresh_handler_def res_after_def writeSseChunk_def
          res_end_def fresh_response_def Let_def countUsage_def resetFailureCount_def)
  have sw: "switchToNextAuth reliable_env
        (fresh_handler\<lparr>availableIndices := [1], usageCount := 1, failureCount := 1,
                       needsSwitchingAfterRequest := True\<rparr>) =
       (Inl (Error only_one_message),
        fresh_handler\<lparr>availableIndices := [1], usageCount := 1, failureCount := 1,
                       needsSwitchingAfterRequest := True\<rparr>)"
    by (simp add: switchToNextAuth_def fresh_handler_def)
  have pr: "(openAIProxyRequest Real (js ''gemini-pro'') True (demo_encode g) (js ''r1''))
              \<lparr>streaming_mode := Real\<rparr> = plain_proxy_request" for g :: "int google_request"
    by (simp add: plain_proxy_request_def demo_encode_def openAIProxyRequest_def)
  have busy: "\<not> isSystemBusy (hs single_world)"
    by (simp add: single_world_def idle_world_def fresh_handler_def)
  have stream: "oa_stream demo_body" by (simp add: demo_body_def)
  have whole: "hs (fst (processOpenAIRequest usage_config Real reliable_env interrupted_upstream
                 demo_parse demo_encode (js ''r1'') True demo_body single_world fresh_response)) =
       deferredSwitch reliable_env
         (hs (fst (snd (handleOpenAIRealStreamResponse usage_config reliable_env
                      interrupted_upstream demo_parse plain_proxy_request (js ''gemini-pro'')
                      single_world fresh_response))))"
    using busy stream
    by (simp add: processOpenAIRequest_def Let_def model pr tr case_prod_beta
          resolveStreamingModeForRequest_def)
  have "hs (fst (processOpenAIRequest usage_config Real reliable_env interrupted_upstream demo_parse
                 demo_encode (js ''r1'') True demo_body single_world fresh_response)) =
       fresh_handler\<lparr>availableIndices := [1], usageCount := 1, failureCount := 1\<rparr>"
    unfolding whole real by (simp add: deferredSwitch_def sw) (simp add: fresh_handler_def)
  moreover have "availableIndices (hs single_world) = [1]" "failureCount (hs single_world) = 0"
    by (simp_all add: single_world_def idle_world_def fresh_handler_def)
  ultimately show ?thesis using real sw by blast
qed

text \<open>
  C2, as amended. The failure handler calls \<^verbatim>\<open>_switchToNextAuth\<close> exactly when the status
  of the failed reply is in the immediate-switch set, or the failure threshold is positive
  and the counter, incremented for this failure, has reached it. A status in the set
  therefore starts a rotation on the first failure, whatever the counter. When no rotation
  is started, the call has incremented the counter if the threshold is positive and has
  changed nothing else.
\<close>

theorem rotation_trigger:
  "(fst (handleRequestFailureAndSwitch cfg env status res h) \<noteq> None \<longleftrightarrow>
     ((\<exists>s. status = Some s \<and> s \<in> set (immediateSwitchStatusCodes cfg))
      \<or> (failureThreshold cfg > 0 \<and> failureCount h + 1 \<ge> failureThreshold cfg)))
   \<and> (fst (handleRequestFailureAndSwitch cfg env status res h) = None \<longrightarrow>
        fst (snd (handleRequestFailureAndSwitch cfg env status res h)) =
          (if failureThreshold cfg > 0 then h\<lparr>failureCount := failureCount h + 1\<rparr> else h)
        \<and> snd (snd (handleRequestFailureAndSwitch cfg env status res h)) = res)"
  by (auto simp: handleRequestFailureAndSwitch_def Let_def
           split: option.splits prod.splits sum.splits)

theorem rotation_trigger_witness:
  "fst (handleRequestFailureAndSwitch demo_config reliable_env (Some 429) None fresh_handler)
     \<noteq> None
   \<and> failureCount fresh_handler + 1 < failureThreshold demo_config
   \<and> fst (handleRequestFailureAndSwitch demo_config reliable_env (Some 500) None fresh_handler)
       = None
   \<and> failureCount (fst (snd (handleRequestFailureAndSwitch demo_config reliable_env (Some 500)
                                None fresh_handler))) = 1"
  using rotation_trigger [of demo_config reliable_env "Some 429" None fresh_handler]
        rotation_trigger [of demo_config reliable_env "Some 500" None fresh_handler]
  by (simp add: demo_config_def fresh_handler_def)

text \<open>
  C2 as stated fails where the threshold is switched off (\<^verbatim>\<open>failureThreshold = 0\<close>): the
  counter, still 0, has reached the threshold and the status 500 is not in the set, yet
  no rotation is started.
\<close>

theorem rotation_trigger_counterexample:
  "fst (handleRequestFailureAndSwitch threshold_off_config reliable_env (Some 500) None
          fresh_handler) = None
   \<and> 500 \<notin> set (immediateSwitchStatusCodes threshold_off_config)
   \<and> failureCount (fst (snd (handleRequestFailureAndSwitch threshold_off_config reliable_env
                                (Some 500) None fresh_handler)))
       \<ge> failureThreshold threshold_off_config"
  by (simp add: handleRequestFailureAndSwitch_def threshold_off_config_def fresh_handler_def)

section \<open>Properties of the re-framing\<close>

declare processSseBuffer.simps [simp del]

lemma delimiterIndex_append:
  "delimiterIndex a = Some i \<Longrightarrow> delimiterIndex (a @ b) = Some i"
proof (induction a arbitrary: i)
  case Nil
  then show ?case by simp
next
  case (Cons c cs)
  show ?case
  proof (cases "prefix [LF, LF] (c # cs)")
    case True
    then have "prefix [LF, LF] ((c # cs) @ b)" by (rule prefix_prefix)
    with True Cons.prems show ?thesis by simp
  next
    case False
    with Cons.prems obtain j where j: "delimiterIndex cs = Some j" and i: "i = Suc j"
      by auto
    from j have "j + 2 \<le> length cs" by (rule delimiterIndex_bound)
    then obtain x y zs where cs: "cs = x # y # zs"
      by (cases cs; cases "tl cs") auto
    with False have "\<not> prefix [LF, LF] ((c # cs) @ b)" by auto
    with Cons.IH [OF j] i show ?thesis by simp
  qed
qed

lemma processSseBuffer_no_delimiter:
  "delimiterIndex buf = None \<Longrightarrow> processSseBuffer buf = ([], buf)"
  by (subst processSseBuffer.simps) simp

lemma processSseBuffer_cut:
  "delimiterIndex buf = Some i \<Longrightarrow>
   processSseBuffer buf =
     ((if trim (take i buf) \<noteq> []
       then (case processSseEvent (take i buf) of None \<Rightarrow> [] | Some p \<Rightarrow> [p]) else [])
        @ fst (processSseBuffer (drop (i + 2) buf)),
      snd (processSseBuffer (drop (i + 2) buf)))"
  by (subst processSseBuffer.simps) (simp add: Let_def split: prod.splits)

lemma processSseBuffer_rest:
  "delimiterIndex (snd (processSseBuffer buf)) = None"
proof (induction buf rule: processSseBuffer.induct)
  case (1 sseBuffer)
  show ?case
  proof (cases "delimiterIndex sseBuffer")
    case None
    then show ?thesis by (simp add: processSseBuffer_no_delimiter)
  next
    case (Some i)
    with 1 [OF Some refl refl] show ?thesis
      by (simp add: processSseBuffer_cut)
  qed
qed

lemma processSseBuffer_append:
  "processSseBuffer (a @ b) =
     (fst (processSseBuffer a) @ fst (processSseBuffer (snd (processSseBuffer a) @ b)),
      snd (processSseBuffer (snd (processSseBuffer a) @ b)))"
proof (induction a rule: processSseBuffer.induct)
  case (1 a)
  show ?case
  proof (cases "delimiterIndex a")
    case None
    then show ?thesis by (simp add: processSseBuffer_no_delimiter)
  next
    case (Some i)
    then have len: "i + 2 \<le> length a" by (rule delimiterIndex_bound)
    have ab: "delimiterIndex (a @ b) = Some i" using Some by (rule delimiterIndex_append)
    from len have tk: "take i (a @ b) = take i a" and dr: "drop (i + 2) (a @ b) = drop (i + 2) a @ b"
      by simp_all
    have IH: "processSseBuffer (drop (i + 2) a @ b) =
     (fst (processSseBuffer (drop (i + 2) a)) @ fst (processSseBuffer (snd (processSseBuffer (drop (i + 2) a)) @ b)),
      snd (processSseBuffer (snd (processSseBuffer (drop (i + 2) a)) @ b)))"
      using 1 [OF Some refl refl] .
    show ?thesis
      unfolding processSseBuffer_cut [OF ab] processSseBuffer_cut [OF Some] tk dr
      using IH by simp
  qed
qed

lemma replace_crlf_append:
  "a = [] \<or> last a \<noteq> CR \<Longrightarrow> replace_crlf (a @ b) = replace_crlf a @ replace_crlf b"
proof (induction a rule: replace_crlf.induct)
  case 1
  then show ?case by simp
next
  case (2 c)
  then show ?case by (cases b) auto
next
  case (3 c d cs)
  then show ?case by (auto split: if_splits)
qed

lemma normalizeChunk_append:
  "a = [] \<or> last a \<noteq> CR \<Longrightarrow> normalizeChunk (a @ b) = normalizeChunk a @ normalizeChunk b"
  by (simp add: normalizeChunk_def replace_crlf_append)

lemma normalizeChunk_concat:
  "list_all (\<lambda>c. c = [] \<or> last c \<noteq> CR) cs \<Longrightarrow>
   normalizeChunk (concat cs) = concat (map normalizeChunk cs)"
proof (induction cs)
  case Nil
  then show ?case by (simp add: normalizeChunk_def)
next
  case (Cons c cs)
  then show ?case by (simp add: normalizeChunk_append)
qed

lemma normalizeChunk_Nil [simp]: "normalizeChunk [] = []"
  by (simp add: normalizeChunk_def)

lemma feedChunk_eq:
  "delimiterIndex buf = None \<Longrightarrow> feedChunk buf d = processSseBuffer (buf @ normalizeChunk d)"
  by (cases d) (simp_all add: feedChunk_def processSseBuffer_no_delimiter)

lemma reframeFrom_eq:
  "delimiterIndex buf = None \<Longrightarrow>
   reframeFrom buf cs =
     fst (processSseBuffer (buf @ concat (map normalizeChunk cs)))
       @ flushBuffer (snd (processSseBuffer (buf @ concat (map normalizeChunk cs))))"
proof (induction cs arbitrary: buf)
  case Nil
  then show ?case by (simp add: processSseBuffer_no_delimiter)
next
  case (Cons c cs)
  have rest: "delimiterIndex (snd (processSseBuffer (buf @ normalizeChunk c))) = None"
    by (rule processSseBuffer_rest)
  have "processSseBuffer ((buf @ normalizeChunk c) @ concat (map normalizeChunk cs)) =
     (fst (processSseBuffer (buf @ normalizeChunk c)) @ fst (processSseBuffer (snd (processSseBuffer (buf @ normalizeChunk c)) @ concat (map normalizeChunk cs))),
      snd (processSseBuffer (snd (processSseBuffer (buf @ normalizeChunk c)) @ concat (map normalizeChunk cs))))"
    by (rule processSseBuffer_append)
  then show ?case
    using Cons.IH [OF rest] Cons.prems
    by (simp add: feedChunk_eq case_prod_beta)
qed

text \<open>
  The payloads that reach the translator depend only on the concatenation of the
  normalised chunks, so every fragmentation of a stream in which no chunk ends with a
  carriage return yields what the unfragmented stream yields.
\<close>

lemma reframe_fragmentation:
  assumes "list_all (\<lambda>c. c = [] \<or> last c \<noteq> CR) cs"
  shows "reframe cs = reframe [concat cs]"
proof -
  have "reframe cs = fst (processSseBuffer (concat (map normalizeChunk cs)))
       @ flushBuffer (snd (processSseBuffer (concat (map normalizeChunk cs))))"
    using reframeFrom_eq [of "[]" cs] by (simp add: reframe_def)
  moreover have "reframe [concat cs] = fst (processSseBuffer (normalizeChunk (concat cs)))
       @ flushBuffer (snd (processSseBuffer (normalizeChunk (concat cs))))"
    using reframeFrom_eq [of "[]" "[concat cs]"] by (simp add: reframe_def)
  ultimately show ?thesis using assms by (simp add: normalizeChunk_concat)
qed

text \<open>
  C8. The emitted events are not independent of the fragmentation: carriage returns are
  normalised in each chunk on its own, so a CRLF pair cut by a chunk boundary becomes two
  line feeds, a blank line. The same bytes give one event with two data lines when they
  arrive in one chunk, and two events when the boundary falls inside the first CRLF.
\<close>

theorem reframe_split_crlf:
  "crlf_head @ crlf_tail = crlf_stream
   \<and> reframe [crlf_stream] = [js ''first'' @ [LF] @ js ''second'']
   \<and> reframe [crlf_head, crlf_tail] = [js ''first'', js ''second'']"
  by code_simp

section \<open>Errors after the headers have been sent\<close>

lemma realStreamLoop_written:
  "\<not> writableEnded res \<Longrightarrow>
   written (snd (snd (realStreamLoop q res))) = written res @ passedThrough q
   \<and> \<not> writableEnded (snd (snd (realStreamLoop q res)))"
  by (induction q arbitrary: res) (auto simp: writeSseChunk_def split: option.splits)

lemma passedThrough_raw: "list_all is_raw (passedThrough q)"
  by (induction q) (auto split: option.splits)

text \<open>
  C4, as amended. With the headers out, \<^verbatim>\<open>_handleRequestError\<close> ends the response; before
  that it writes one error event, but only to a response marked as a pseudo stream or
  under the global mode \<^verbatim>\<open>fake\<close>, and it never writes the completion line. The native
  real-stream handler, once the first message was not an error, writes nothing but the
  upstream chunks and ends the response, whether the stream ended or the queue timed out.
\<close>

theorem error_after_headers:
  "(headersSent res \<longrightarrow>
      writableEnded (handleRequestError mode error res)
      \<and> written (handleRequestError mode error res) =
          written res @ (if (proxyPseudoStream res \<or> mode = Fake) \<and> \<not> writableEnded res
                         then [ProxyErrorEvent (ProcessingFailed (error_message error))] else []))
   \<and> (connected w \<and> queue w = [] \<and> up (length (forwarded w)) req = hm # q
        \<and> \<not> is_error hm \<and> \<not> writableEnded res \<longrightarrow>
      (case handleRealStreamResponse cfg env up req w res of
         (thrown, w', res') \<Rightarrow>
           thrown = None \<and> headersSent res' \<and> writableEnded res'
           \<and> written res' = written res @ passedThrough q
           \<and> list_all is_raw (passedThrough q)))"
proof -
  have part1: "writableEnded (handleRequestError mode error res)
      \<and> written (handleRequestError mode error res) =
          written res @ (if (proxyPseudoStream res \<or> mode = Fake) \<and> \<not> writableEnded res
                         then [ProxyErrorEvent (ProcessingFailed (error_message error))] else [])"
    if "headersSent res"
    using that
    by (auto simp: handleRequestError_def sendErrorChunkToClient_def writeSseChunk_def
          res_end_def Let_def)
  have part2: "case handleRealStreamResponse cfg env up req w res of
         (thrown, w', res') \<Rightarrow>
           thrown = None \<and> headersSent res' \<and> writableEnded res'
           \<and> written res' = written res @ passedThrough q
           \<and> list_all is_raw (passedThrough q)"
    if a: "connected w \<and> queue w = [] \<and> up (length (forwarded w)) req = hm # q
        \<and> \<not> is_error hm \<and> \<not> writableEnded res"
  proof -
    let ?res1 = "setResponseHeaders res hm"
    from a have ne: "\<not> writableEnded ?res1" by (simp add: setResponseHeaders_def)
    from realStreamLoop_written [OF ne]
    have wr: "written (snd (snd (realStreamLoop q ?res1))) = written res @ passedThrough q"
      and open_after: "\<not> writableEnded (snd (snd (realStreamLoop q ?res1)))"
      by (simp_all add: setResponseHeaders_def)
    from a wr open_after show ?thesis
      by (simp add: handleRealStreamResponse_def forwardRequest_def dequeue_def Let_def
            res_end_def passedThrough_raw case_prod_beta)
  qed
  show ?thesis
    apply (rule conjI)
     apply (rule impI)
     apply (erule part1)
    apply (rule impI)
    apply (erule part2)
    done
qed

theorem error_after_headers_witness:
  "written (handleRequestError Real (Error queue_timeout_message) streaming_response) =
     [ProxyErrorEvent (ProcessingFailed queue_timeout_message)]
   \<and> writableEnded (handleRequestError Real (Error queue_timeout_message) streaming_response)
   \<and> written (snd (snd (handleRealStreamResponse demo_config reliable_env stalling_upstream
                          demo_request idle_world streaming_response))) =
       [RawEvent (js ''data: partial'')]"
  using error_after_headers [where res = streaming_response and mode = Real
      and error = "Error queue_timeout_message" and w = idle_world and up = stalling_upstream
      and req = demo_request and hm = "HeadersMsg (Some 200) []"
      and q = "[ChunkMsg (js ''data: partial'')]" and cfg = demo_config and env = reliable_env]
  by (simp add: streaming_response_def idle_world_def stalling_upstream_def case_prod_beta js_def)

text \<open>
  C4 as stated fails on a real stream that stalls after its first chunk: the headers are
  out, the queue times out, and the response is ended with the chunk as the last thing
  written. Handing the same timeout to \<^verbatim>\<open>_handleRequestError\<close> on such a response
  also ends it with nothing written.
\<close>

theorem error_after_headers_counterexample:
  "snd (snd (handleRealStreamResponse demo_config reliable_env stalling_upstream demo_request
               idle_world fresh_response)) =
      \<lparr>headersSent = True, writableEnded = True, statusCode = 200, proxyPseudoStream = False,
       written = [RawEvent (js ''data: partial'')]\<rparr>
   \<and> handleRequestError Real (Error queue_timeout_message)
        \<lparr>headersSent = True, writableEnded = False, statusCode = 200, proxyPseudoStream = False,
         written = [RawEvent (js ''data: partial'')]\<rparr> =
      \<lparr>headersSent = True, writableEnded = True, statusCode = 200, proxyPseudoStream = False,
       written = [RawEvent (js ''data: partial'')]\<rparr>"
  by (simp add: handleRealStreamResponse_def forwardRequest_def dequeue_def Let_def
       res_end_def idle_world_def stalling_upstream_def fresh_response_def demo_request_def
       nativeSuccess_def countUsage_def resetFailureCount_def fresh_handler_def demo_config_def
       setResponseHeaders_def writeSseChunk_def handleRequestError_def js_def)

section \<open>Properties of the request translation\<close>

lemma base64_marker: "js '';base64,'' = [0x3B, 0x62, 0x61, 0x73, 0x65, 0x36, 0x34, 0x2C]"
  by (simp add: js_def)

lemma data_image_marker:
  "js ''data:image/'' = [0x64, 0x61, 0x74, 0x61, 0x3A, 0x69, 0x6D, 0x61, 0x67, 0x65, 0x2F]"
  by (simp add: js_def)

text \<open>
  The pattern matches exactly the URLs \<^verbatim>\<open>data:image/<subtype>;base64,<data>\<close> without a
  line terminator, and the lazy group ends at the first \<^verbatim>\<open>;base64,\<close>.
\<close>

lemma lazyBase64_first:
  assumes "list_all (\<lambda>x. \<not> is_line_terminator x) sub"
      and "list_all (\<lambda>x. \<not> is_line_terminator x) d"
      and "\<forall>sub' d'. sub @ js '';base64,'' @ d = sub' @ js '';base64,'' @ d'
                     \<longrightarrow> length sub \<le> length sub'"
  shows "lazyBase64 acc (sub @ js '';base64,'' @ d) = Some (rev acc @ sub, d)"
  using assms
proof (induction sub arbitrary: acc)
  case Nil
  then show ?case by (simp add: base64_marker)
next
  case (Cons c cs)
  have no: "\<not> prefix (js '';base64,'') (c # cs @ js '';base64,'' @ d)"
  proof
    assume "prefix (js '';base64,'') (c # cs @ js '';base64,'' @ d)"
    then obtain d' where "c # cs @ js '';base64,'' @ d = js '';base64,'' @ d'"
      by (auto simp: prefix_def)
    then have "(c # cs) @ js '';base64,'' @ d = [] @ js '';base64,'' @ d'" by simp
    with Cons.prems(3) have "length (c # cs) \<le> length ([] :: jsstring)" by blast
    then show False by simp
  qed
  have later: "\<forall>sub' d'. cs @ js '';base64,'' @ d = sub' @ js '';base64,'' @ d'
                     \<longrightarrow> length cs \<le> length sub'"
  proof (intro allI impI)
    fix sub' d'
    assume "cs @ js '';base64,'' @ d = sub' @ js '';base64,'' @ d'"
    then have "(c # cs) @ js '';base64,'' @ d = (c # sub') @ js '';base64,'' @ d'" by simp
    with Cons.prems(3) have "length (c # cs) \<le> length (c # sub')" by blast
    then show "length cs \<le> length sub'" by simp
  qed
  from Cons.prems(1) have c: "\<not> is_line_terminator c"
    and cs: "list_all (\<lambda>x. \<not> is_line_terminator x) cs" by simp_all
  have "lazyBase64 acc ((c # cs) @ js '';base64,'' @ d) =
          lazyBase64 (c # acc) (cs @ js '';base64,'' @ d)"
    using no c by simp
  also have "\<dots> = Some (rev (c # acc) @ cs, d)"
    using cs Cons.prems(2) later by (rule Cons.IH)
  finally show ?case by simp
qed

lemma lazyBase64_sound:
  "lazyBase64 acc s = Some (m, d) \<Longrightarrow>
   \<exists>sub. m = rev acc @ sub \<and> s = sub @ js '';base64,'' @ d
         \<and> list_all (\<lambda>x. \<not> is_line_terminator x) sub
         \<and> list_all (\<lambda>x. \<not> is_line_terminator x) d"
proof (induction s arbitrary: acc)
  case Nil
  then show ?case by simp
next
  case (Cons c cs)
  show ?case
  proof (cases "prefix (js '';base64,'') (c # cs)
                \<and> list_all (\<lambda>x. \<not> is_line_terminator x) (drop 8 (c # cs))")
    case True
    with Cons.prems have md: "m = rev acc" "d = drop 8 (c # cs)" by simp_all
    from True obtain t where "c # cs = js '';base64,'' @ t" by (auto simp: prefix_def)
    moreover from this have "drop 8 (c # cs) = t" by (simp add: base64_marker)
    ultimately have "c # cs = [] @ js '';base64,'' @ d" using md by simp
    with md True show ?thesis by (intro exI [of _ "[]"]) simp
  next
    case False
    with Cons.prems have c: "\<not> is_line_terminator c"
      and rec: "lazyBase64 (c # acc) cs = Some (m, d)"
      by (auto split: if_splits)
    from Cons.IH [OF rec] obtain sub where
      sub: "m = rev (c # acc) @ sub" "cs = sub @ js '';base64,'' @ d"
        "list_all (\<lambda>x. \<not> is_line_terminator x) sub" "list_all (\<lambda>x. \<not> is_line_terminator x) d"
      by blast
    with c show ?thesis by (intro exI [of _ "c # sub"]) simp
  qed
qed

lemma matchDataUrl_first:
  assumes "list_all (\<lambda>x. \<not> is_line_terminator x) sub"
      and "list_all (\<lambda>x. \<not> is_line_terminator x) d"
      and "\<forall>sub' d'. sub @ js '';base64,'' @ d = sub' @ js '';base64,'' @ d'
                     \<longrightarrow> length sub \<le> length sub'"
  shows "matchDataUrl (js ''data:image/'' @ sub @ js '';base64,'' @ d) =
           Some (js ''image/'' @ sub, d)"
proof -
  have "lazyBase64 [] (sub @ js '';base64,'' @ d) = Some (rev [] @ sub, d)"
    using assms by (rule lazyBase64_first)
  then show ?thesis
    by (simp add: matchDataUrl_def data_image_marker)
qed

lemma matchDataUrl_sound:
  assumes "matchDataUrl url = Some (m, d)"
  shows "\<exists>sub. m = js ''image/'' @ sub \<and> url = js ''data:image/'' @ sub @ js '';base64,'' @ d
            \<and> list_all (\<lambda>x. \<not> is_line_terminator x) sub
            \<and> list_all (\<lambda>x. \<not> is_line_terminator x) d"
proof -
  from assms have p: "prefix (js ''data:image/'') url"
    by (auto simp: matchDataUrl_def split: if_splits)
  then obtain t where t: "url = js ''data:image/'' @ t" by (auto simp: prefix_def)
  then have dr: "drop 11 url = t" by (simp add: data_image_marker)
  from assms p dr obtain m' where m': "lazyBase64 [] t = Some (m', d)" "m = js ''image/'' @ m'"
    by (auto simp: matchDataUrl_def)
  from lazyBase64_sound [OF m'(1)] obtain sub where
    "m' = sub" "t = sub @ js '';base64,'' @ d"
    "list_all (\<lambda>x. \<not> is_line_terminator x) sub" "list_all (\<lambda>x. \<not> is_line_terminator x) d"
    by auto
  with t m'(2) show ?thesis by auto
qed

lemma unmatched_dropped:
  assumes "\<forall>sub d. url = js ''data:image/'' @ sub @ js '';base64,'' @ d \<longrightarrow>
             \<not> (list_all (\<lambda>x. \<not> is_line_terminator x) sub
                \<and> list_all (\<lambda>x. \<not> is_line_terminator x) d)"
  shows "translatePart (ImagePart (Some url)) = []"
proof (cases "matchDataUrl url")
  case None
  then show ?thesis by simp
next
  case (Some md)
  obtain m d where "md = (m, d)" by (cases md)
  with Some matchDataUrl_sound [of url m d] assms show ?thesis by blast
qed

lemma first_marker:
  assumes "0x3B \<notin> set sub"
  shows "\<forall>sub' d'. sub @ js '';base64,'' @ d = sub' @ js '';base64,'' @ d'
                     \<longrightarrow> length sub \<le> length sub'"
proof (intro allI impI, rule ccontr)
  fix sub' d'
  assume eq: "sub @ js '';base64,'' @ d = sub' @ js '';base64,'' @ d'"
    and "\<not> length sub \<le> length sub'"
  then have lt: "length sub' < length sub" by simp
  then have "(sub @ js '';base64,'' @ d) ! length sub' = sub ! length sub'"
    by (simp add: nth_append)
  moreover have "(sub' @ js '';base64,'' @ d') ! length sub' = 0x3B"
    by (simp add: nth_append base64_marker)
  ultimately have "sub ! length sub' = 0x3B" using eq by simp
  with lt assms show False by (metis nth_mem)
qed

lemma system_strings:
  assumes "map content sys = map StringContent ss"
  shows "map (\<lambda>m. systemText (content m)) sys = ss \<and> (sys = [] \<longleftrightarrow> ss = [])"
proof -
  have "map (\<lambda>m. systemText (content m)) sys = map systemText (map content sys)" by simp
  also have "\<dots> = map systemText (map StringContent ss)" by (simp only: assms)
  also have "\<dots> = ss" by (induction ss) simp_all
  finally have "map (\<lambda>m. systemText (content m)) sys = ss" .
  moreover from assms have "length sys = length ss" by (metis length_map)
  ultimately show ?thesis by auto
qed

text \<open>
  What holds of the translation of a body with a list of messages. When the contents of
  the system messages are strings, the system instruction is one text part, those strings
  joined by newlines, and it is absent when there is no system message. The contents are
  the other messages in order, with role \<^verbatim>\<open>model\<close> for \<^verbatim>\<open>assistant\<close> and \<^verbatim>\<open>user\<close> for
  every other role; a string content is one text part, an array content the parts of its
  elements, a text part a text part; an image part whose URL is
  \<^verbatim>\<open>data:image/<subtype>;base64,<data>\<close> on one line (the subtype ending at the first
  \<^verbatim>\<open>;base64,\<close>) is an inline-data part with that MIME type and data; an image part with any
  other URL or none, and a part of another type, contribute nothing. The five generation
  parameters are passed on unchanged, and the safety settings name the four harm
  categories, each with threshold \<^verbatim>\<open>BLOCK_NONE\<close>.
\<close>

theorem translateOpenAIToGoogle_holds:
  assumes msgs: "messages b = Some msgs"
  shows "\<exists>g. translateOpenAIToGoogle b = Inr g
     \<and> (map content (filter (\<lambda>m. role m = js ''system'') msgs) = map StringContent ss \<longrightarrow>
          systemInstruction g = (if ss = [] then None else Some [NText (join [LF] ss)]))
     \<and> length (contents g) = length (filter (\<lambda>m. role m \<noteq> js ''system'') msgs)
     \<and> (\<forall>i < length (contents g).
           nrole (contents g ! i) =
             (if role (filter (\<lambda>m. role m \<noteq> js ''system'') msgs ! i) = js ''assistant''
              then js ''model'' else js ''user'')
           \<and> parts (contents g ! i) =
               translateContent (content (filter (\<lambda>m. role m \<noteq> js ''system'') msgs ! i)))
     \<and> translateContent (StringContent s) = [NText s]
     \<and> translateContent (ArrayContent ps) = concat (map translatePart ps)
     \<and> translateContent NoContent = []
     \<and> translatePart (TextPart t) = [NText t]
     \<and> (list_all (\<lambda>x. \<not> is_line_terminator x) sub \<and> list_all (\<lambda>x. \<not> is_line_terminator x) d
          \<and> (\<forall>sub' d'. sub @ js '';base64,'' @ d = sub' @ js '';base64,'' @ d'
                     \<longrightarrow> length sub \<le> length sub') \<longrightarrow>
         translatePart (ImagePart (Some (js ''data:image/'' @ sub @ js '';base64,'' @ d))) =
           [NInline (js ''image/'' @ sub) d])
     \<and> ((\<forall>sub d. url = js ''data:image/'' @ sub @ js '';base64,'' @ d \<longrightarrow>
             \<not> (list_all (\<lambda>x. \<not> is_line_terminator x) sub
                \<and> list_all (\<lambda>x. \<not> is_line_terminator x) d)) \<longrightarrow>
         translatePart (ImagePart (Some url)) = [])
     \<and> translatePart (ImagePart None) = []
     \<and> translatePart OtherPart = []
     \<and> gtemperature (generationConfig g) = temperature b
     \<and> topP (generationConfig g) = top_p b
     \<and> topK (generationConfig g) = top_k b
     \<and> maxOutputTokens (generationConfig g) = max_tokens b
     \<and> stopSequences (generationConfig g) = stop b
     \<and> map fst (safetySettings g) = harm_categories
     \<and> list_all (\<lambda>setting. snd setting = js ''BLOCK_NONE'') (safetySettings g)"
proof -
  let ?sys = "filter (\<lambda>m. role m = js ''system'') msgs"
  have sysinst: "map content ?sys = map StringContent ss \<longrightarrow>
      (if length ?sys > 0
       then Some [NText (join [LF] (map (\<lambda>m. systemText (content m)) ?sys))]
       else None) = (if ss = [] then None else Some [NText (join [LF] ss)])"
    using system_strings [of ?sys ss] by auto
  have image: "list_all (\<lambda>x. \<not> is_line_terminator x) sub \<and> list_all (\<lambda>x. \<not> is_line_terminator x) d
          \<and> (\<forall>sub' d'. sub @ js '';base64,'' @ d = sub' @ js '';base64,'' @ d'
                     \<longrightarrow> length sub \<le> length sub') \<longrightarrow>
         translatePart (ImagePart (Some (js ''data:image/'' @ sub @ js '';base64,'' @ d))) =
           [NInline (js ''image/'' @ sub) d]"
    using matchDataUrl_first [of sub d] by simp
  have dropped: "(\<forall>sub d. url = js ''data:image/'' @ sub @ js '';base64,'' @ d \<longrightarrow>
             \<not> (list_all (\<lambda>x. \<not> is_line_terminator x) sub
                \<and> list_all (\<lambda>x. \<not> is_line_terminator x) d)) \<longrightarrow>
         translatePart (ImagePart (Some url)) = []"
    using unmatched_dropped [of url] by blast
  from msgs sysinst image dropped show ?thesis
    by (simp add: translateOpenAIToGoogle_def Let_def translateMessage_def
          block_none_settings_def harm_categories_def)
qed

theorem translateOpenAIToGoogle_holds_witness:
  "\<exists>g. translateOpenAIToGoogle demo_body = Inr g
     \<and> systemInstruction g = Some [NText (js ''be brief'' @ [LF] @ js ''be kind'')]
     \<and> contents g =
         [\<lparr>nrole = js ''user'',
           parts = [NText (js ''hi''), NInline (js ''image/png'') (js ''AAAA'')]\<rparr>,
          \<lparr>nrole = js ''model'', parts = [NText (js ''hello'')]\<rparr>]
     \<and> gtemperature (generationConfig g) = Some 1
     \<and> list_all (\<lambda>setting. snd setting = js ''BLOCK_NONE'') (safetySettings g)"
  using translateOpenAIToGoogle_holds [where b = demo_body and msgs = demo_messages
      and sub = "js ''png''" and d = "js ''AAAA''"
      and ss = "[js ''be brief'', js ''be kind'']"]
  by (simp add: demo_body_def demo_messages_def translateOpenAIToGoogle_def Let_def
        translateMessage_def block_none_settings_def matchDataUrl_def js_def LF_def
        is_line_terminator_def)

text \<open>
  C9 fails on a chat request whose system message has an array of parts as its content,
  which the conversation messages may have and are translated with: \<^verbatim>\<open>join\<close> renders the
  array through its default conversion, and the system instruction is the text
  \<^verbatim>\<open>[object Object]\<close> instead of the text of the message. It also fails on an image whose
  base64 data URL ends with a line feed: the dot of the pattern matches no line terminator
  and the pattern must reach the end of the string, so the URL does not match and the image
  is left out of the parts, while the same URL without the line feed is translated.
\<close>

theorem translateOpenAIToGoogle_array_system:
  "translateOpenAIToGoogle array_system_body =
     Inr \<lparr>contents = [\<lparr>nrole = js ''user'', parts = [NText (js ''hi'')]\<rparr>],
          systemInstruction = Some [NText (js ''[object Object]'')],
          generationConfig = \<lparr>gtemperature = Some 1, topP = Some 2, topK = Some 3,
                               maxOutputTokens = Some 4, stopSequences = None\<rparr>,
          safetySettings = block_none_settings\<rparr>
   \<and> translateContent (ArrayContent [TextPart (js ''be brief'')]) = [NText (js ''be brief'')]
   \<and> wrapped_image_url = js ''data:image/png;base64,AAAA'' @ [LF]
   \<and> translatePart (ImagePart (Some (js ''data:image/png;base64,AAAA''))) =
       [NInline (js ''image/png'') (js ''AAAA'')]"
  by (simp add: translateOpenAIToGoogle_def array_system_body_def array_system_messages_def
        demo_body_def Let_def translateMessage_def matchDataUrl_def wrapped_image_url_def
        js_def LF_def is_line_terminator_def)

section \<open>Properties of the retry loop\<close>

declare retryLoop.simps [simp del]

lemma attemptFails_cases:
  "attemptFails r \<Longrightarrow> r = [] \<or> (\<exists>m. r = [m] \<and> is_error m)"
  by (cases r rule: attemptFails.cases) auto

lemma firstMessage_error: "attemptFails r \<Longrightarrow> is_error (firstMessage r)"
  by (cases r rule: attemptFails.cases) auto

lemma retryLoop_fail_step:
  assumes "connected w" "queue w = []" "attemptFails (up (length (forwarded w)) req)"
    and "a < maxRetries cfg"
  shows "retryLoop cfg up req a l w =
           retryLoop cfg up req (a + 1) (Some (firstMessage (up (length (forwarded w)) req)))
             (w\<lparr>forwarded := forwarded w @ [req], queue := [],
                slept := slept w @ [retryDelay cfg], awaited := awaited w @ [300000]\<rparr>)"
  using assms attemptFails_cases [OF assms(3)]
  by (subst retryLoop.simps, cases w)
     (auto simp: forwardRequest_def awaitFirstMessage_def sleep_def Let_def)

lemma retryLoop_fail_last:
  assumes "connected w" "queue w = []" "attemptFails (up (length (forwarded w)) req)"
    and "a = maxRetries cfg"
  shows "retryLoop cfg up req a l w =
           (Inr (Some (firstMessage (up (length (forwarded w)) req)), True),
            w\<lparr>forwarded := forwarded w @ [req], queue := [],
               awaited := awaited w @ [300000]\<rparr>)"
  using assms attemptFails_cases [OF assms(3)]
  by (subst retryLoop.simps, cases w)
     (auto simp: forwardRequest_def awaitFirstMessage_def sleep_def Let_def)



lemma retryLoop_all_fail:
  assumes "connected w" "queue w = []" "a + int d = maxRetries cfg"
    and "\<forall>j\<le>d. attemptFails (up (length (forwarded w) + j) req)"
  shows "retryLoop cfg up req a l w =
           (Inr (Some (firstMessage (up (length (forwarded w) + d) req)), True),
            w\<lparr>forwarded := forwarded w @ replicate (Suc d) req, queue := [],
               slept := slept w @ replicate d (retryDelay cfg),
               awaited := awaited w @ replicate (Suc d) 300000\<rparr>)"
  using assms
proof (induction d arbitrary: a l w)
  case 0
  then show ?case by (simp add: retryLoop_fail_last)
next
  case (Suc d)
  let ?w = "w\<lparr>forwarded := forwarded w @ [req], queue := [],
                slept := slept w @ [retryDelay cfg], awaited := awaited w @ [300000]\<rparr>"
  from Suc.prems have f0: "attemptFails (up (length (forwarded w)) req)" by force
  from Suc.prems have lt: "a < maxRetries cfg" by simp
  have step: "retryLoop cfg up req a l w =
      retryLoop cfg up req (a + 1) (Some (firstMessage (up (length (forwarded w)) req))) ?w"
    using Suc.prems(1,2) f0 lt by (rule retryLoop_fail_step)
  have later: "\<forall>j\<le>d. attemptFails (up (length (forwarded ?w) + j) req)"
  proof (intro allI impI)
    fix j assume "j \<le> d"
    then have "Suc j \<le> Suc d" by simp
    with Suc.prems(4) have "attemptFails (up (length (forwarded w) + Suc j) req)" by blast
    then show "attemptFails (up (length (forwarded ?w) + j) req)" by simp
  qed
  have "retryLoop cfg up req (a + 1) (Some (firstMessage (up (length (forwarded w)) req))) ?w =
          (Inr (Some (firstMessage (up (length (forwarded ?w) + d) req)), True),
            ?w\<lparr>forwarded := forwarded ?w @ replicate (Suc d) req, queue := [],
               slept := slept ?w @ replicate d (retryDelay cfg),
               awaited := awaited ?w @ replicate (Suc d) 300000\<rparr>)"
  proof (rule Suc.IH)
    show "connected ?w" using Suc.prems(1) by simp
    show "queue ?w = []" by simp
    show "a + 1 + int d = maxRetries cfg" using Suc.prems(3) by simp
    show "\<forall>j\<le>d. attemptFails (up (length (forwarded ?w) + j) req)" by (rule later)
  qed
  with step show ?case by (simp add: replicate_append_same)
qed







lemma attemptsMade_hs [simp]: "attemptsMade cfg req k (w\<lparr>hs := h\<rparr>) = attemptsMade cfg req k w"
  by (simp add: attemptsMade_def)

lemma attemptsMade_queue [simp]:
  "attemptsMade cfg req k (w\<lparr>queue := q\<rparr>) = attemptsMade cfg req k w"
  by (simp add: attemptsMade_def)





text \<open>The handlers without a retry loop forward one request and never wait between attempts.\<close>

lemma openAIReal_forwards_once:
  "connected w \<Longrightarrow>
   forwarded (fst (snd (handleOpenAIRealStreamResponse cfg env up parse req model w res))) =
     forwarded w @ [req]
   \<and> slept (fst (snd (handleOpenAIRealStreamResponse cfg env up parse req model w res))) =
       slept w"
  by (simp add: handleOpenAIRealStreamResponse_def forwardRequest_def dequeue_def Let_def
        case_prod_beta split: list.splits)

lemma nativeReal_forwards_once:
  "connected w \<Longrightarrow>
   forwarded (fst (snd (handleRealStreamResponse cfg env up req w res))) = forwarded w @ [req]
   \<and> slept (fst (snd (handleRealStreamResponse cfg env up req w res))) = slept w"
  by (simp add: handleRealStreamResponse_def forwardRequest_def dequeue_def Let_def
        case_prod_beta split: list.splits)





section \<open>Aborted requests\<close>

lemma abortReply_cases:
  "abortReply r \<Longrightarrow> \<exists>s m. r = [ErrorMsg s (Some m)] \<and> m \<noteq> [] \<and> js_includes m abort_marker"
  by (cases r rule: abortReply.cases) auto

lemma abortReply_fails: "abortReply r \<Longrightarrow> attemptFails r"
  by (auto dest: abortReply_cases)

lemma abortReply_marked:
  "abortReply r \<Longrightarrow> opt_includes (msg_message (firstMessage r)) abort_marker"
  by (auto dest!: abortReply_cases simp: opt_includes_def)

text \<open>
  What the handlers do with a request whose replies mark a user-initiated abort. In the two
  pseudo-stream handlers such an error is retried like any other: when every attempt is
  answered by one, the request has been forwarded \<^verbatim>\<open>maxRetries\<close> times; the failure is
  then not counted and no rotation is started (the handler state is unchanged), and no
  error event is written. In the native real-stream handler, which forwards once, such a
  first message is not counted either and the response is ended.
\<close>

theorem abort_not_counted:
  assumes conn: "connected w" and q: "queue w = []"
    and n: "1 \<le> maxRetries cfg"
    and aborts: "\<forall>j < nat (maxRetries cfg). abortReply (up (length (forwarded w) + j) req)"
    and res: "\<not> writableEnded res"
  shows "(case handleOpenAIPseudoStreamResponse cfg mode env up parse req model w res of
            (w', res') \<Rightarrow>
              hs w' = hs w
              \<and> forwarded w' = forwarded w @ replicate (nat (maxRetries cfg)) req
              \<and> written res' = written res @ [DoneSentinel])
       \<and> (case handlePseudoStreamResponse cfg mode env up req w res of
            (w', res') \<Rightarrow>
              hs w' = hs w
              \<and> forwarded w' = forwarded w @ replicate (nat (maxRetries cfg)) req
              \<and> written res' = written res)
       \<and> (case handleRealStreamResponse cfg env up req w res of
            (thrown, w', res') \<Rightarrow>
              thrown = None \<and> hs w' = hs w
              \<and> forwarded w' = forwarded w @ [req]
              \<and> written res' = written res \<and> writableEnded res')"
proof -
  define d where "d = nat (maxRetries cfg - 1)"
  with n have max: "1 + int d = maxRetries cfg" and suc: "nat (maxRetries cfg) = Suc d" by simp_all
  have all: "\<forall>j\<le>d. abortReply (up (length (forwarded w) + j) req)"
    using aborts suc by (simp add: less_Suc_eq_le)
  then have last_abort: "abortReply (up (length (forwarded w) + d) req)" by simp
  from all have first_abort: "abortReply (up (length (forwarded w)) req)" by force
  have loop: "retryLoop cfg up req 1 None w =
           (Inr (Some (firstMessage (up (length (forwarded w) + d) req)), True),
            w\<lparr>forwarded := forwarded w @ replicate (Suc d) req, queue := [],
               slept := slept w @ replicate d (retryDelay cfg),
               awaited := awaited w @ replicate (Suc d) 300000\<rparr>)"
  proof (rule retryLoop_all_fail)
    show "connected w" by (rule conn)
    show "queue w = []" by (rule q)
    show "1 + int d = maxRetries cfg" by (rule max)
    show "\<forall>j\<le>d. attemptFails (up (length (forwarded w) + j) req)"
      using all by (simp add: abortReply_fails)
  qed
  have marked: "opt_includes (msg_message (firstMessage (up (length (forwarded w) + d) req))) abort_marker"
    using last_abort by (rule abortReply_marked)
  have openai: "case handleOpenAIPseudoStreamResponse cfg mode env up parse req model w res of
            (w', res') \<Rightarrow>
              hs w' = hs w
              \<and> forwarded w' = forwarded w @ replicate (nat (maxRetries cfg)) req
              \<and> written res' = written res @ [DoneSentinel]"
    using res suc marked
    by (simp add: handleOpenAIPseudoStreamResponse_def openAIPseudoStreamBody_def loop Let_def
          writeSseChunk_def res_end_def)
  have native: "case handlePseudoStreamResponse cfg mode env up req w res of
            (w', res') \<Rightarrow>
              hs w' = hs w
              \<and> forwarded w' = forwarded w @ replicate (nat (maxRetries cfg)) req
              \<and> written res' = written res"
    using res suc marked
    by (simp add: handlePseudoStreamResponse_def pseudoStreamBody_def loop Let_def
          writeSseChunk_def res_end_def)
  from abortReply_cases [OF first_abort] obtain s m where
    r0: "up (length (forwarded w)) req = [ErrorMsg s (Some m)]" and m: "m \<noteq> []" "js_includes m abort_marker"
    by blast
  have real: "case handleRealStreamResponse cfg env up req w res of
            (thrown, w', res') \<Rightarrow>
              thrown = None \<and> hs w' = hs w
              \<and> forwarded w' = forwarded w @ [req]
              \<and> written res' = written res \<and> writableEnded res'"
    using conn q res r0 m
    by (simp add: handleRealStreamResponse_def forwardRequest_def dequeue_def opt_includes_def
          res_end_def)
  from openai native real show ?thesis by (intro conjI)
qed


theorem abort_not_counted_witness:
  "hs (fst (handleOpenAIPseudoStreamResponse demo_config Fake reliable_env aborting_upstream
              demo_parse demo_request (js ''gemini-pro'') idle_world fresh_response)) =
     fresh_handler
   \<and> written (snd (handleOpenAIPseudoStreamResponse demo_config Fake reliable_env
                       aborting_upstream demo_parse demo_request (js ''gemini-pro'') idle_world
                       fresh_response)) = [DoneSentinel]
   \<and> forwarded (fst (snd (handleRealStreamResponse demo_config reliable_env aborting_upstream
                          demo_request idle_world fresh_response))) = [demo_request]"
proof -
  have h: "connected idle_world" "queue idle_world = []" "1 \<le> maxRetries demo_config"
    "\<forall>j < nat (maxRetries demo_config).
        abortReply (aborting_upstream (length (forwarded idle_world) + j) demo_request)"
    "\<not> writableEnded fresh_response"
    by (simp_all add: idle_world_def demo_config_def aborting_upstream_def abort_marker_def
          fresh_response_def js_def)
  from abort_not_counted [where mode = Fake and env = reliable_env and parse = demo_parse
      and model = "js ''gemini-pro''" and up = aborting_upstream and req = demo_request
      and cfg = demo_config and w = idle_world and res = fresh_response, OF h]
  show ?thesis
    by (simp add: case_prod_beta idle_world_def fresh_response_def)
qed

text \<open>
  C5 fails, here with \<^verbatim>\<open>maxRetries = 3\<close> and an upstream that answers every attempt with
  the error of an aborted request. In the two pseudo-stream handlers the test for the
  abort marker inside the retry loop guards a log line only, and the request is forwarded
  again: three times in all. The OpenAI real-stream and non-stream handlers do not look for
  the abort marker and count the failure, which the native real-stream handler, on the
  same reply, does not.
\<close>

theorem abort_resent_and_counted:
  "abortReply (aborting_upstream 0 demo_request)
   \<and> maxRetries demo_config = 3
   \<and> forwarded (fst (handleOpenAIPseudoStreamResponse demo_config Fake reliable_env
                       aborting_upstream demo_parse demo_request (js ''gemini-pro'') idle_world
                       fresh_response)) =
       [demo_request, demo_request, demo_request]
   \<and> forwarded (fst (handlePseudoStreamResponse demo_config Fake reliable_env
                       aborting_upstream demo_request idle_world fresh_response)) =
       [demo_request, demo_request, demo_request]
   \<and> failureCount (hs idle_world) = 0
   \<and> failureCount (hs (fst (snd (handleOpenAIRealStreamResponse demo_config reliable_env
                                   aborting_upstream demo_parse demo_request (js ''gemini-pro'')
                                   idle_world fresh_response)))) = 1
   \<and> failureCount (hs (fst (snd (handleOpenAINonStreamResponse demo_config reliable_env
                                   aborting_upstream demo_parse demo_request (js ''gemini-pro'')
                                   idle_world fresh_response)))) = 1
   \<and> failureCount (hs (fst (snd (handleRealStreamResponse demo_config reliable_env
                                   aborting_upstream demo_request idle_world
                                   fresh_response)))) = 0"
proof -
  have marked: "opt_includes (Some (js ''The user aborted a request.'')) abort_marker"
    "js ''The user aborted a request.'' \<noteq> []"
    "js_includes (js ''The user aborted a request.'') abort_marker"
    by (simp_all add: opt_includes_def abort_marker_def js_def)
  have pseudo: "forwarded (fst (handleOpenAIPseudoStreamResponse demo_config Fake reliable_env
                       aborting_upstream demo_parse demo_request (js ''gemini-pro'') idle_world
                       fresh_response)) =
       [demo_request, demo_request, demo_request]"
    "forwarded (fst (handlePseudoStreamResponse demo_config Fake reliable_env
                       aborting_upstream demo_request idle_world fresh_response)) =
       [demo_request, demo_request, demo_request]"
    by (simp_all add: handleOpenAIPseudoStreamResponse_def openAIPseudoStreamBody_def
          handlePseudoStreamResponse_def pseudoStreamBody_def Let_def
          retryLoop.simps forwardRequest_def awaitFirstMessage_def sleep_def idle_world_def
          aborting_upstream_def demo_config_def marked)
  have counted: "failureCount (hs (fst (snd (handleOpenAIRealStreamResponse demo_config
                                   reliable_env aborting_upstream demo_parse demo_request
                                   (js ''gemini-pro'') idle_world fresh_response)))) = 1"
    "failureCount (hs (fst (snd (handleOpenAINonStreamResponse demo_config reliable_env
                                   aborting_upstream demo_parse demo_request (js ''gemini-pro'')
                                   idle_world fresh_response)))) = 1"
    "failureCount (hs (fst (snd (handleRealStreamResponse demo_config reliable_env
                                   aborting_upstream demo_request idle_world
                                   fresh_response)))) = 0"
    "failureCount (hs idle_world) = 0"
    by (simp_all add: handleOpenAIRealStreamResponse_def handleOpenAINonStreamResponse_def
          handleRealStreamResponse_def forwardRequest_def dequeue_def idle_world_def
          aborting_upstream_def demo_config_def handleRequestFailureAndSwitch_def
          fresh_handler_def Let_def marked)
  have "abortReply (aborting_upstream 0 demo_request)" "maxRetries demo_config = 3"
    by (simp_all add: aborting_upstream_def demo_config_def marked)
  with pseudo counted show ?thesis by blast
qed

section \<open>Properties of mix mode\<close>

text \<open>Whatever a handler forwards for a request is that request, some number of times.\<close>

lemma retryLoop_forwarded:
  assumes "nat (maxRetries cfg + 1 - a) = n"
  shows "\<exists>k. forwarded (snd (retryLoop cfg up req a l w)) = forwarded w @ replicate k req"
  using assms
proof (induction n arbitrary: a l w)
  case 0
  then have "\<not> a \<le> maxRetries cfg" by simp
  then have "retryLoop cfg up req a l w = (Inr (l, False), w)"
    by (subst retryLoop.simps) simp
  then have "forwarded (snd (retryLoop cfg up req a l w)) = forwarded w @ replicate 0 req" by simp
  then show ?case by blast
next
  case (Suc n)
  then have le: "a \<le> maxRetries cfg" by simp
  show ?case
  proof (cases "connected w")
    case False
    with le have "retryLoop cfg up req a l w = (Inl (Error no_connection_message), w)"
      by (subst retryLoop.simps) (simp add: forwardRequest_def)
    then have "forwarded (snd (retryLoop cfg up req a l w)) = forwarded w @ replicate 0 req" by simp
    then show ?thesis by blast
  next
    case True
    let ?w1 = "w\<lparr>forwarded := forwarded w @ [req],
                   queue := queue w @ up (length (forwarded w)) req\<rparr>"
    obtain m w2 where aw: "awaitFirstMessage ?w1 = (m, w2)" by (cases "awaitFirstMessage ?w1")
    then have fw2: "forwarded w2 = forwarded w @ [req]"
      by (auto simp: awaitFirstMessage_def Let_def split: list.splits)
    show ?thesis
    proof (cases "is_error m \<and> a < maxRetries cfg")
      case False
      with True le aw have "snd (retryLoop cfg up req a l w) = w2"
        by (subst retryLoop.simps) (auto simp: forwardRequest_def)
      with fw2 have "forwarded (snd (retryLoop cfg up req a l w)) = forwarded w @ replicate 1 req"
        by simp
      then show ?thesis by blast
    next
      case again: True
      with True le aw have step: "retryLoop cfg up req a l w =
          retryLoop cfg up req (a + 1) (Some m) (sleep (retryDelay cfg) w2)"
        by (subst retryLoop.simps) (simp add: forwardRequest_def)
      from Suc.prems have n: "nat (maxRetries cfg + 1 - (a + 1)) = n" by simp
      from Suc.IH [OF n, of "Some m" "sleep (retryDelay cfg) w2"] obtain k where
        "forwarded (snd (retryLoop cfg up req (a + 1) (Some m) (sleep (retryDelay cfg) w2))) =
           forwarded (sleep (retryDelay cfg) w2) @ replicate k req" by blast
      with step fw2 have "forwarded (snd (retryLoop cfg up req a l w)) =
          forwarded w @ replicate (Suc k) req"
        by (simp add: sleep_def replicate_append_same)
      then show ?thesis by blast
    qed
  qed
qed

lemma dequeue_forwarded: "dequeue w = Inr (m, w') \<Longrightarrow> forwarded w' = forwarded w"
  by (auto simp: dequeue_def split: list.splits)

lemma openAIPseudo_forwarded:
  "\<exists>k. forwarded (fst (handleOpenAIPseudoStreamResponse cfg mode env up parse req model w res)) =
         forwarded w @ replicate k req"
proof -
  obtain k where k: "forwarded (snd (retryLoop cfg up req 1 None w)) = forwarded w @ replicate k req"
    using retryLoop_forwarded [OF refl] by blast
  have "forwarded (fst (handleOpenAIPseudoStreamResponse cfg mode env up parse req model w res)) =
          forwarded (snd (retryLoop cfg up req 1 None w))"
    by (auto simp: handleOpenAIPseudoStreamResponse_def openAIPseudoStreamBody_def Let_def
          case_prod_beta dequeue_def split: sum.splits list.splits prod.splits)
  with k show ?thesis by auto
qed


lemma openAIReal_forwarded:
  "\<exists>k. forwarded (fst (snd (handleOpenAIRealStreamResponse cfg env up parse req model w res))) =
         forwarded w @ replicate k req"
proof (cases "connected w")
  case True
  from openAIReal_forwards_once [OF True, of cfg env up parse req model res]
  have "forwarded (fst (snd (handleOpenAIRealStreamResponse cfg env up parse req model w res))) =
          forwarded w @ replicate 1 req" by simp
  then show ?thesis by blast
next
  case False
  then have "forwarded (fst (snd (handleOpenAIRealStreamResponse cfg env up parse req model w res))) =
          forwarded w @ replicate 0 req"
    by (simp add: handleOpenAIRealStreamResponse_def forwardRequest_def)
  then show ?thesis by blast
qed

lemma streaming_request_forwarded:
  assumes "\<not> isSystemBusy (hs w)" and "messages reqBody = Some msgs" and "oa_stream reqBody"
  shows "\<exists>k g. translateOpenAIToGoogle reqBody = Inr g
          \<and> forwarded (fst (processOpenAIRequest cfg Mix env up parse encode rid True reqBody w res)) =
              forwarded w @ replicate k
                ((openAIProxyRequest Mix (requestedModelOf reqBody) True (encode g) rid)
                   \<lparr>streaming_mode := (if prefix fakeStreamPrefix (requestedModelOf reqBody)
                                        then Fake else Real)\<rparr>)"
proof -
  from assms(2) obtain g where g: "translateOpenAIToGoogle reqBody = Inr g"
    by (simp add: translateOpenAIToGoogle_def Let_def)
  let ?m = "requestedModelOf reqBody"
  let ?mode = "if prefix fakeStreamPrefix ?m then Fake else Real"
  let ?req = "(openAIProxyRequest Mix ?m True (encode g) rid)\<lparr>streaming_mode := ?mode\<rparr>"
  have resolved: "resolveStreamingModeForRequest Mix (Some (normalizeMixModeModelId Mix ?m)) = ?mode"
    by (simp add: resolveStreamingModeForRequest_def normalizeMixModeModelId_def
          isMixStreamingEnabled_def isFakeStreamModelId_def Let_def)
  show ?thesis
  proof (cases "prefix fakeStreamPrefix ?m")
    case True
    obtain k where k: "forwarded (fst (handleOpenAIPseudoStreamResponse cfg Mix env up parse ?req ?m w res)) =
         forwarded w @ replicate k ?req"
      using openAIPseudo_forwarded by blast
    have "forwarded (fst (processOpenAIRequest cfg Mix env up parse encode rid True reqBody w res)) =
          forwarded (fst (handleOpenAIPseudoStreamResponse cfg Mix env up parse ?req ?m w res))"
      using assms g True resolved
      by (simp add: processOpenAIRequest_def Let_def case_prod_beta)
    with k g show ?thesis by auto
  next
    case False
    obtain k where k: "forwarded (fst (snd (handleOpenAIRealStreamResponse cfg env up parse ?req ?m w res))) =
         forwarded w @ replicate k ?req"
      using openAIReal_forwarded by blast
    have "forwarded (fst (processOpenAIRequest cfg Mix env up parse encode rid True reqBody w res)) =
          forwarded (fst (snd (handleOpenAIRealStreamResponse cfg env up parse ?req ?m w res)))"
      using assms g False resolved
      by (simp add: processOpenAIRequest_def Let_def case_prod_beta)
    with k g show ?thesis by auto
  qed
qed


text \<open>The same for the native handlers, and the model context of a native request.\<close>

lemma nativePseudo_forwarded:
  "\<exists>k. forwarded (fst (handlePseudoStreamResponse cfg mode env up req w res)) =
         forwarded w @ replicate k req"
proof -
  obtain k where k: "forwarded (snd (retryLoop cfg up req 1 None w)) = forwarded w @ replicate k req"
    using retryLoop_forwarded [OF refl] by blast
  have "forwarded (fst (handlePseudoStreamResponse cfg mode env up req w res)) =
          forwarded (snd (retryLoop cfg up req 1 None w))"
    by (auto simp: handlePseudoStreamResponse_def pseudoStreamBody_def Let_def
          case_prod_beta dequeue_def split: sum.splits list.splits prod.splits)
  with k show ?thesis by auto
qed

lemma nativeReal_forwarded:
  "\<exists>k. forwarded (fst (snd (handleRealStreamResponse cfg env up req w res))) =
         forwarded w @ replicate k req"
proof (cases "connected w")
  case True
  from nativeReal_forwards_once [OF True, of cfg env up req res]
  have "forwarded (fst (snd (handleRealStreamResponse cfg env up req w res))) =
          forwarded w @ replicate 1 req" by simp
  then show ?thesis by blast
next
  case False
  then have "forwarded (fst (snd (handleRealStreamResponse cfg env up req w res))) =
          forwarded w @ replicate 0 req"
    by (simp add: handleRealStreamResponse_def forwardRequest_def)
  then show ?thesis by blast
qed

lemma normalizeModelIdentifierInPath_info:
  assumes "extractModelPathInfo Mix dec (path r) = Some info"
  shows "normalizeModelIdentifierInPath Mix dec enc r =
     (let m = decodedModelId info;
          rewrite = (prefix fakeStreamPrefix m \<and> m \<noteq> fakeStreamPrefix);
          c = \<lparr>requestedModel = m,
               normalizedModel = (if rewrite then drop (length fakeStreamPrefix) m else m),
               isFake = prefix fakeStreamPrefix m\<rparr>
      in (Some c,
          r\<lparr>path := (if rewrite
                      then basePath info @ enc (drop (length fakeStreamPrefix) m) @ suffix info
                      else path r),
            mix_context := Some c\<rparr>))"
  using assms
  by (auto simp: normalizeModelIdentifierInPath_def isMixStreamingEnabled_def Let_def
        isFakeStreamModelId_def stripFakeStreamPrefix_def prefix_def)

lemma native_streaming_request_forwarded:
  assumes "\<not> isSystemBusy (hs w)" and "connected w" and "wantsStream req"
  shows "\<exists>k. forwarded (fst (processRequest cfg Mix env up dec enc nonStream rid True req w res)) =
              forwarded w @ replicate k
                ((snd (normalizeModelIdentifierInPath Mix dec enc (buildProxyRequest Mix req rid)))
                   \<lparr>is_generative :=
                       (req_method req = js ''POST''
                        \<and> (js_includes (req_path req) (js ''generateContent'')
                             \<or> js_includes (req_path req) (js ''streamGenerateContent''))),
                    streaming_mode :=
                       resolveStreamingModeForRequest Mix
                         (fst (normalizeModelIdentifierInPath Mix dec enc
                                 (buildProxyRequest Mix req rid)))\<rparr>)"
proof -
  let ?n = "normalizeModelIdentifierInPath Mix dec enc (buildProxyRequest Mix req rid)"
  let ?mode = "resolveStreamingModeForRequest Mix (fst ?n)"
  let ?g = "(req_method req = js ''POST''
                        \<and> (js_includes (req_path req) (js ''generateContent'')
                             \<or> js_includes (req_path req) (js ''streamGenerateContent'')))"
  let ?req = "(snd ?n)\<lparr>is_generative := ?g, streaming_mode := ?mode\<rparr>"
  have w0: "w\<lparr>hs := hs w\<rparr> = w" by simp
  show ?thesis
  proof (cases "?mode = Fake")
    case True
    obtain k where k: "forwarded (fst (handlePseudoStreamResponse cfg Mix env up ?req w res)) =
         forwarded w @ replicate k ?req"
      using nativePseudo_forwarded by blast
    have "forwarded (fst (processRequest cfg Mix env up dec enc nonStream rid True req w res)) =
          forwarded (fst (handlePseudoStreamResponse cfg Mix env up ?req w res))"
      using assms True
      by (simp add: processRequest_def Let_def case_prod_beta)
    with k show ?thesis by auto
  next
    case False
    obtain k where k: "forwarded (fst (snd (handleRealStreamResponse cfg env up ?req w res))) =
         forwarded w @ replicate k ?req"
      using nativeReal_forwarded by blast
    have "forwarded (fst (processRequest cfg Mix env up dec enc nonStream rid True req w res)) =
          forwarded (fst (snd (handleRealStreamResponse cfg env up ?req w res)))"
      using assms False
      by (simp add: processRequest_def Let_def case_prod_beta)
    with k show ?thesis by auto
  qed
qed

lemma marked_info:
  "extractModelPathInfo Mix demo_decode (req_path marked_client_request) =
     Some \<lparr>basePath = js ''/v1beta/models/'', encodedModelSegment = marked_model,
           suffix = js '':streamGenerateContent'', decodedModelId = marked_model\<rparr>"
  by (simp add: extractModelPathInfo_def modelPathPrefix_def marked_client_request_def
        marked_model_def fakeStreamPrefix_def demo_decode_def isMixStreamingEnabled_def
        js_def Let_def)

lemma native_request_forwarded:
  assumes "\<not> isSystemBusy (hs w)" and "connected w" and "wantsStream req"
    and "extractModelPathInfo Mix dec (req_path req) = Some info"
  shows "\<exists>k. forwarded (fst (processRequest cfg Mix env up dec enc nonStream rid True req w res)) =
            forwarded w @ replicate k
              ((buildProxyRequest Mix req rid)
                 \<lparr>path :=
                    (if prefix fakeStreamPrefix (decodedModelId info)
                        \<and> decodedModelId info \<noteq> fakeStreamPrefix
                     then basePath info
                            @ enc (drop (length fakeStreamPrefix) (decodedModelId info))
                            @ suffix info
                     else req_path req),
                  mix_context :=
                    Some \<lparr>requestedModel = decodedModelId info,
                          normalizedModel =
                            (if prefix fakeStreamPrefix (decodedModelId info)
                                \<and> decodedModelId info \<noteq> fakeStreamPrefix
                             then drop (length fakeStreamPrefix) (decodedModelId info)
                             else decodedModelId info),
                          isFake = prefix fakeStreamPrefix (decodedModelId info)\<rparr>,
                  is_generative :=
                    (req_method req = js ''POST''
                     \<and> (js_includes (req_path req) (js ''generateContent'')
                          \<or> js_includes (req_path req) (js ''streamGenerateContent''))),
                  streaming_mode :=
                    (if prefix fakeStreamPrefix (decodedModelId info) then Fake else Real)\<rparr>)"
proof -
  have p: "path (buildProxyRequest Mix req rid) = req_path req"
    by (simp add: buildProxyRequest_def)
  from assms(4) have i: "extractModelPathInfo Mix dec (path (buildProxyRequest Mix req rid)) = Some info"
    by (simp add: p)
  note n = normalizeModelIdentifierInPath_info [OF i, of enc]
  from native_streaming_request_forwarded [OF assms(1-3), of cfg env up dec enc nonStream rid res]
  show ?thesis
    by (cases "prefix fakeStreamPrefix (decodedModelId info)";
        cases "decodedModelId info = fakeStreamPrefix")
       (simp_all add: n Let_def p resolveStreamingModeForRequest_def)
qed

lemma native_request_no_model:
  assumes "\<not> isSystemBusy (hs w)" and "connected w" and "wantsStream req"
    and "extractModelPathInfo Mix dec (req_path req) = None"
  shows "\<exists>k. forwarded (fst (processRequest cfg Mix env up dec enc nonStream rid True req w res)) =
            forwarded w @ replicate k
              ((buildProxyRequest Mix req rid)
                 \<lparr>is_generative :=
                    (req_method req = js ''POST''
                     \<and> (js_includes (req_path req) (js ''generateContent'')
                          \<or> js_includes (req_path req) (js ''streamGenerateContent''))),
                  streaming_mode := Real\<rparr>)"
proof -
  have p: "path (buildProxyRequest Mix req rid) = req_path req"
    by (simp add: buildProxyRequest_def)
  have n: "normalizeModelIdentifierInPath Mix dec enc (buildProxyRequest Mix req rid) =
             (None, buildProxyRequest Mix req rid)"
    using assms(4) by (simp add: normalizeModelIdentifierInPath_def p)
  from native_streaming_request_forwarded [OF assms(1-3), of cfg env up dec enc nonStream rid res]
  show ?thesis
    by (simp add: n resolveStreamingModeForRequest_def)
qed

lemma marked_wants: "wantsStream marked_client_request"
  by (simp add: wantsStream_def marked_client_request_def marked_model_def fakeStreamPrefix_def
        js_def Let_def)


lemma marked_generative:
  "req_method marked_client_request = js ''POST''
   \<and> js_includes (req_path marked_client_request) (js ''streamGenerateContent'')"
  by (simp add: marked_client_request_def marked_model_def fakeStreamPrefix_def js_def)

text \<open>
  C7, as amended. Under the global mode \<^verbatim>\<open>mix\<close> the mode of a streaming request is
  \<^verbatim>\<open>fake\<close> exactly when the requested model identifier starts with the reserved prefix,
  and \<^verbatim>\<open>real\<close> otherwise; the identifier as requested is kept as the requested model;
  the model named in the upstream path is the identifier without the prefix whenever
  something follows the prefix, and the identifier unchanged otherwise. Every request
  that \<^verbatim>\<open>processOpenAIRequest\<close> forwards for a streaming client request carries that
  path and that mode, and so does every request that \<^verbatim>\<open>processRequest\<close> forwards for a
  native streaming request, where the identifier is the one found in the request path; a
  native streaming request whose path names no model is forwarded in mode \<^verbatim>\<open>real\<close>.
  Under the global modes \<^verbatim>\<open>real\<close> and \<^verbatim>\<open>fake\<close> the global mode is the mode of the
  request.
\<close>

theorem mix_mode_resolution:
  "resolveStreamingModeForRequest Mix (Some (normalizeMixModeModelId Mix m)) =
     (if prefix fakeStreamPrefix m then Fake else Real)
   \<and> requestedModel (normalizeMixModeModelId Mix m) = m
   \<and> normalizedModel (normalizeMixModeModelId Mix m) =
       (if prefix fakeStreamPrefix m \<and> m \<noteq> fakeStreamPrefix
        then drop (length fakeStreamPrefix) m else m)
   \<and> googleModelOf Mix m = normalizedModel (normalizeMixModeModelId Mix m)
   \<and> path (openAIProxyRequest Mix m True b rid) =
       js ''/v1beta/models/'' @ googleModelOf Mix m @ js '':streamGenerateContent''
   \<and> (\<not> isSystemBusy (hs w) \<and> messages reqBody = Some msgs \<and> oa_stream reqBody \<longrightarrow>
        (\<exists>k g. translateOpenAIToGoogle reqBody = Inr g
           \<and> forwarded (fst (processOpenAIRequest cfg Mix env up parse encode rid True reqBody
                                w res)) =
               forwarded w @ replicate k
                 ((openAIProxyRequest Mix (requestedModelOf reqBody) True (encode g) rid)
                    \<lparr>streaming_mode := (if prefix fakeStreamPrefix (requestedModelOf reqBody)
                                         then Fake else Real)\<rparr>)))
   \<and> (\<not> isSystemBusy (hs w) \<and> connected w \<and> wantsStream req
        \<and> extractModelPathInfo Mix dec (req_path req) = Some info \<longrightarrow>
        (\<exists>k. forwarded (fst (processRequest cfg Mix env up dec enc nonStream rid True req
                               w res)) =
            forwarded w @ replicate k
              ((buildProxyRequest Mix req rid)
                 \<lparr>path :=
                    (if prefix fakeStreamPrefix (decodedModelId info)
                        \<and> decodedModelId info \<noteq> fakeStreamPrefix
                     then basePath info
                            @ enc (drop (length fakeStreamPrefix) (decodedModelId info))
                            @ suffix info
                     else req_path req),
                  mix_context :=
                    Some \<lparr>requestedModel = decodedModelId info,
                          normalizedModel =
                            (if prefix fakeStreamPrefix (decodedModelId info)
                                \<and> decodedModelId info \<noteq> fakeStreamPrefix
                             then drop (length fakeStreamPrefix) (decodedModelId info)
                             else decodedModelId info),
                          isFake = prefix fakeStreamPrefix (decodedModelId info)\<rparr>,
                  is_generative :=
                    (req_method req = js ''POST''
                     \<and> (js_includes (req_path req) (js ''generateContent'')
                          \<or> js_includes (req_path req) (js ''streamGenerateContent''))),
                  streaming_mode :=
                    (if prefix fakeStreamPrefix (decodedModelId info) then Fake else Real)\<rparr>)))
   \<and> (\<not> isSystemBusy (hs w) \<and> connected w \<and> wantsStream req
        \<and> extractModelPathInfo Mix dec (req_path req) = None \<longrightarrow>
        (\<exists>k. forwarded (fst (processRequest cfg Mix env up dec enc nonStream rid True req
                               w res)) =
            forwarded w @ replicate k
              ((buildProxyRequest Mix req rid)
                 \<lparr>is_generative :=
                    (req_method req = js ''POST''
                     \<and> (js_includes (req_path req) (js ''generateContent'')
                          \<or> js_includes (req_path req) (js ''streamGenerateContent''))),
                  streaming_mode := Real\<rparr>)))
   \<and> resolveStreamingModeForRequest Real ctx = Real
   \<and> resolveStreamingModeForRequest Fake ctx = Fake"
proof -
  have pipeline: "\<not> isSystemBusy (hs w) \<and> messages reqBody = Some msgs \<and> oa_stream reqBody \<longrightarrow>
        (\<exists>k g. translateOpenAIToGoogle reqBody = Inr g
           \<and> forwarded (fst (processOpenAIRequest cfg Mix env up parse encode rid True reqBody
                                w res)) =
               forwarded w @ replicate k
                 ((openAIProxyRequest Mix (requestedModelOf reqBody) True (encode g) rid)
                    \<lparr>streaming_mode := (if prefix fakeStreamPrefix (requestedModelOf reqBody)
                                         then Fake else Real)\<rparr>))"
    using streaming_request_forwarded [of w reqBody msgs cfg env up parse encode rid res]
    by blast
  note native = native_request_forwarded [of w req dec info cfg env up enc nonStream rid res]
  note no_model = native_request_no_model [of w req dec cfg env up enc nonStream rid res]
  have local_part: "resolveStreamingModeForRequest Mix (Some (normalizeMixModeModelId Mix m)) =
     (if prefix fakeStreamPrefix m then Fake else Real)
   \<and> requestedModel (normalizeMixModeModelId Mix m) = m
   \<and> normalizedModel (normalizeMixModeModelId Mix m) =
       (if prefix fakeStreamPrefix m \<and> m \<noteq> fakeStreamPrefix
        then drop (length fakeStreamPrefix) m else m)
   \<and> googleModelOf Mix m = normalizedModel (normalizeMixModeModelId Mix m)
   \<and> path (openAIProxyRequest Mix m True b rid) =
       js ''/v1beta/models/'' @ googleModelOf Mix m @ js '':streamGenerateContent''
   \<and> resolveStreamingModeForRequest Real ctx = Real
   \<and> resolveStreamingModeForRequest Fake ctx = Fake"
    by (auto simp: resolveStreamingModeForRequest_def normalizeMixModeModelId_def
        isMixStreamingEnabled_def isFakeStreamModelId_def stripFakeStreamPrefix_def Let_def
        googleModelOf_def openAIProxyRequest_def prefix_def js_def)
  show ?thesis
    apply (intro conjI)
              apply (simp add: local_part)
             apply (simp add: local_part)
            apply (simp add: local_part)
           apply (simp add: local_part)
          apply (rule conjunct1 [OF conjunct2 [OF conjunct2 [OF conjunct2 [OF conjunct2 [OF local_part]]]]])
         apply (rule pipeline)
        apply (rule impI, elim conjE, erule (3) native)
       apply (rule impI, elim conjE, erule (3) no_model)
      apply (simp add: local_part)
     apply (simp add: local_part)
    done
qed

theorem mix_mode_resolution_witness:
  "resolveStreamingModeForRequest Mix (Some (normalizeMixModeModelId Mix marked_model)) = Fake
   \<and> requestedModel (normalizeMixModeModelId Mix marked_model) = marked_model
   \<and> googleModelOf Mix marked_model = js ''gemini-pro''
   \<and> resolveStreamingModeForRequest Mix
         (Some (normalizeMixModeModelId Mix (js ''gemini-pro''))) = Real
   \<and> googleModelOf Mix (js ''gemini-pro'') = js ''gemini-pro''
   \<and> (\<exists>k. forwarded (fst (processOpenAIRequest demo_config Mix reliable_env flaky_upstream
                              demo_parse demo_encode (js ''r1'') True marked_body idle_world
                              fresh_response)) = replicate k marked_proxy_request)
   \<and> path marked_proxy_request = js ''/v1beta/models/gemini-pro:streamGenerateContent''
   \<and> streaming_mode marked_proxy_request = Fake
   \<and> (\<exists>k. forwarded (fst (processRequest demo_config Mix reliable_env flaky_upstream
                              demo_decode demo_encodeURI no_handler (js ''r1'') True
                              marked_client_request idle_world fresh_response)) =
            replicate k marked_native_request)
   \<and> path marked_native_request = js ''/v1beta/models/gemini-pro:streamGenerateContent''
   \<and> streaming_mode marked_native_request = Fake"
proof -
  have h: "\<not> isSystemBusy (hs idle_world) \<and> messages marked_body = Some demo_messages
           \<and> oa_stream marked_body"
    by (simp add: idle_world_def fresh_handler_def marked_body_def demo_body_def)
  have h2: "\<not> isSystemBusy (hs idle_world) \<and> connected idle_world
            \<and> wantsStream marked_client_request
            \<and> extractModelPathInfo Mix demo_decode (req_path marked_client_request) =
                Some \<lparr>basePath = js ''/v1beta/models/'', encodedModelSegment = marked_model,
                      suffix = js '':streamGenerateContent'', decodedModelId = marked_model\<rparr>"
    using marked_wants marked_info by (simp add: idle_world_def fresh_handler_def)
  have m: "requestedModelOf marked_body = marked_model" "prefix fakeStreamPrefix marked_model"
    by (simp_all add: requestedModelOf_def marked_body_def or_else_def marked_model_def
          fakeStreamPrefix_def)
  have m2: "marked_model \<noteq> fakeStreamPrefix"
    "drop (length fakeStreamPrefix) marked_model = js ''gemini-pro''"
    by (simp_all add: marked_model_def fakeStreamPrefix_def js_def)
  have r: "(buildProxyRequest Mix marked_client_request (js ''r1''))
             \<lparr>path := js ''/v1beta/models/'' @ demo_encodeURI (js ''gemini-pro'')
                        @ js '':streamGenerateContent'',
              mix_context := Some \<lparr>requestedModel = marked_model,
                                    normalizedModel = js ''gemini-pro'', isFake = True\<rparr>,
              is_generative := True, streaming_mode := Fake\<rparr> = marked_native_request"
    by (simp add: buildProxyRequest_def marked_client_request_def marked_native_request_def
          demo_encodeURI_def js_def)
  have google: "googleModelOf Mix marked_model = js ''gemini-pro''"
    by (simp add: googleModelOf_def normalizeMixModeModelId_def isMixStreamingEnabled_def
          isFakeStreamModelId_def stripFakeStreamPrefix_def marked_model_def
          fakeStreamPrefix_def js_def Let_def)
  note inst = mix_mode_resolution [where w = idle_world and reqBody = marked_body
      and msgs = demo_messages and cfg = demo_config and env = reliable_env
      and up = flaky_upstream and parse = demo_parse and encode = demo_encode
      and rid = "js ''r1''" and res = fresh_response and req = marked_client_request
      and dec = demo_decode and enc = demo_encodeURI and nonStream = no_handler
      and info = "\<lparr>basePath = js ''/v1beta/models/'', encodedModelSegment = marked_model,
                      suffix = js '':streamGenerateContent'', decodedModelId = marked_model\<rparr>"]
  have "\<exists>k g. translateOpenAIToGoogle marked_body = Inr g
           \<and> forwarded (fst (processOpenAIRequest demo_config Mix reliable_env flaky_upstream
                                demo_parse demo_encode (js ''r1'') True marked_body idle_world
                                fresh_response)) =
               forwarded idle_world @ replicate k
                 ((openAIProxyRequest Mix (requestedModelOf marked_body) True (demo_encode g)
                     (js ''r1''))
                    \<lparr>streaming_mode := (if prefix fakeStreamPrefix (requestedModelOf marked_body)
                                         then Fake else Real)\<rparr>)"
    using inst h by blast
  then have openai: "\<exists>k. forwarded (fst (processOpenAIRequest demo_config Mix reliable_env flaky_upstream
                              demo_parse demo_encode (js ''r1'') True marked_body idle_world
                              fresh_response)) = replicate k marked_proxy_request"
    by (simp add: m demo_encode_def marked_proxy_request_def idle_world_def)
  from inst h2 have "\<exists>k. forwarded (fst (processRequest demo_config Mix reliable_env flaky_upstream
                              demo_decode demo_encodeURI no_handler (js ''r1'') True
                              marked_client_request idle_world fresh_response)) =
            forwarded idle_world @ replicate k
              ((buildProxyRequest Mix marked_client_request (js ''r1''))
                 \<lparr>path := js ''/v1beta/models/'' @ demo_encodeURI (js ''gemini-pro'')
                        @ js '':streamGenerateContent'',
              mix_context := Some \<lparr>requestedModel = marked_model,
                                    normalizedModel = js ''gemini-pro'', isFake = True\<rparr>,
              is_generative := True, streaming_mode := Fake\<rparr>)"
    using m m2 marked_generative by simp
  then have native: "\<exists>k. forwarded (fst (processRequest demo_config Mix reliable_env flaky_upstream
                              demo_decode demo_encodeURI no_handler (js ''r1'') True
                              marked_client_request idle_world fresh_response)) =
            replicate k marked_native_request"
    by (simp add: r idle_world_def)
  have paths: "path marked_proxy_request = js ''/v1beta/models/gemini-pro:streamGenerateContent''"
    "streaming_mode marked_proxy_request = Fake"
    "path marked_native_request = js ''/v1beta/models/gemini-pro:streamGenerateContent''"
    "streaming_mode marked_native_request = Fake"
    by (simp_all add: marked_proxy_request_def openAIProxyRequest_def google js_def
          marked_native_request_def)
  have rest: "resolveStreamingModeForRequest Mix (Some (normalizeMixModeModelId Mix marked_model)) = Fake
   \<and> requestedModel (normalizeMixModeModelId Mix marked_model) = marked_model
   \<and> resolveStreamingModeForRequest Mix
         (Some (normalizeMixModeModelId Mix (js ''gemini-pro''))) = Real
   \<and> googleModelOf Mix (js ''gemini-pro'') = js ''gemini-pro''"
    by (simp add: resolveStreamingModeForRequest_def googleModelOf_def
          normalizeMixModeModelId_def isMixStreamingEnabled_def isFakeStreamModelId_def
          stripFakeStreamPrefix_def marked_model_def fakeStreamPrefix_def js_def Let_def)
  from openai native paths rest google show ?thesis by blast
qed

text \<open>
  C7 as stated fails for the identifier that is the prefix and nothing else: the request
  is resolved to \<^verbatim>\<open>fake\<close>, stripping leaves the empty string, and the upstream path
  names the identifier with its prefix.
\<close>

theorem mix_mode_counterexample:
  "resolveStreamingModeForRequest Mix (Some (normalizeMixModeModelId Mix fakeStreamPrefix)) = Fake
   \<and> stripFakeStreamPrefix fakeStreamPrefix = []
   \<and> normalizedModel (normalizeMixModeModelId Mix fakeStreamPrefix) = fakeStreamPrefix
   \<and> googleModelOf Mix fakeStreamPrefix = fakeStreamPrefix"
  by (simp add: resolveStreamingModeForRequest_def normalizeMixModeModelId_def
      isMixStreamingEnabled_def isFakeStreamModelId_def stripFakeStreamPrefix_def Let_def
      googleModelOf_def)

end
